theory Spec2Isabelle
  imports Complex_Main "HOL-Library.Word"
begin

section \<open>Key authorities of golem/core/keysauth.py\<close>

text \<open>
  The module is Python 2. Its functions are embedded as HOL functions over an explicit
  world (the file system and the number of random draws made so far). A raised exception
  is the \<open>Inl\<close> branch of a sum; an effect that happened before the exception stays in
  the returned world, as it does in Python. The two \<open>while\<close> loops (the difficulty count
  and the proof-of-work search) are partial functions into \<open>option\<close>, where \<open>None\<close>
  means that the loop never exits; the first is shown to end on every input.
\<close>

subsection \<open>Exceptions and hashing\<close>

datatype error =
  TypeError | ValueError | IndexError | IOError | AssertionError | AttributeError | OverflowError

text \<open>
  What the code hands to \<open>hashlib.sha256\<close>: a byte string, or an instance of a class
  without the buffer interface (a PyCrypto key object), on which hashlib raises TypeError.
\<close>

datatype pyobj = Str string | Instance

text \<open>
  \<open>hashlib.sha256\<close> is taken as a parameter: the digest of a byte string, 256 bits.
  \<open>sha2\<close> reads the 64 hexadecimal digits of the digest as a number in base 16, which is
  the digest as an unsigned integer.
\<close>

type_synonym hashfn = "string \<Rightarrow> 256 word"

definition sha2 :: "hashfn \<Rightarrow> pyobj \<Rightarrow> error + int" where
  "sha2 sha256 seed =
     (case seed of Str s \<Rightarrow> Inr (uint (sha256 s)) | Instance \<Rightarrow> Inl TypeError)"

text \<open>
  \<open>pow(2, e)\<close> for an integer \<open>e\<close>, in Python 2. While \<open>e\<close> is not negative the result is
  the exact integer. With a negative exponent, \<open>pow\<close> converts both arguments to floats
  and returns the float \<open>2.0 ** e\<close>: the conversion of the exponent raises OverflowError
  (long int too large to convert to float) from \<open>2 ** 1024 - 2 ** 970\<close> on, the first
  magnitude that rounds beyond the largest float; below, the result is the exact power of
  two down to \<open>2 ** -1074\<close> and \<open>0.0\<close> after that (underflow raises nothing). Python compares
  an integer with a float exactly, so the value is kept as a rational.
\<close>

definition float_exponent_limit :: int where
  "float_exponent_limit = 2 ^ 1024 - 2 ^ 970"

definition python_pow2 :: "int \<Rightarrow> error + rat" where
  "python_pow2 e =
     (if 0 \<le> e then Inr (2 ^ nat e)
      else if float_exponent_limit \<le> - e then Inl OverflowError
      else if - e \<le> 1074 then Inr (1 / 2 ^ nat (- e))
      else Inr 0)"

definition count_min_hash :: "int \<Rightarrow> error + rat" where
  "count_min_hash difficulty = python_pow2 (256 - difficulty)"

subsection \<open>The authority object\<close>

record ('priv, 'pub) KeysAuth =
  private_key :: 'priv
  public_key :: 'pub
  key_id :: string
  uuid :: "string option"

record 'e EllipticalKeysAuth = "(string, string) KeysAuth" +
  ecc :: 'e

type_synonym 'k RSAKeysAuth = "('k, 'k) KeysAuth"

text \<open>
  The \<open>while\<close> loop of \<open>get_difficulty\<close>: \<open>min_hash\<close> is computed for the current
  difficulty (before the loop, and at the end of each pass), then the test hashes the
  identifier again.
\<close>

partial_function (option) get_difficulty_loop ::
  "hashfn \<Rightarrow> string \<Rightarrow> int \<Rightarrow> (error + int) option" where
  "get_difficulty_loop sha256 kid difficulty =
     (case count_min_hash difficulty of
        Inl e \<Rightarrow> Some (Inl e)
      | Inr min_hash \<Rightarrow>
          (case sha2 sha256 (Str kid) of
             Inl e \<Rightarrow> Some (Inl e)
           | Inr h \<Rightarrow>
               if of_int h \<le> min_hash
               then get_difficulty_loop sha256 kid (difficulty + 1)
               else Some (Inr (difficulty - 1))))"

definition get_difficulty ::
  "hashfn \<Rightarrow> ('priv, 'pub, 'more) KeysAuth_scheme \<Rightarrow> string option \<Rightarrow> (error + int) option" where
  "get_difficulty sha256 self kid_arg =
     (let kid = (case kid_arg of None \<Rightarrow> key_id self | Some k \<Rightarrow> k)
      in get_difficulty_loop sha256 kid 0)"

subsection \<open>File system, paths and randomness\<close>

text \<open>
  Regular files by path, the directories that exist, and the paths that cannot be opened
  for writing (permissions). \<open>open(p, 'w')\<close> raises IOError when the directory of \<open>p\<close>
  is missing, when \<open>p\<close> is a directory or when \<open>p\<close> is locked; otherwise the \<open>with\<close> block
  replaces the content. Reading an existing regular file succeeds; a missing one raises
  IOError. \<open>os.makedirs\<close> is taken to succeed.
\<close>

record filesystem =
  files :: "string \<rightharpoonup> string"
  dirs :: "string set"
  locked :: "string set"

record world =
  fs :: filesystem
  draws :: nat

definition os_path_join :: "string \<Rightarrow> string \<Rightarrow> string" where
  "os_path_join a b =
     (if b \<noteq> [] \<and> hd b = CHR ''/'' then b
      else if a = [] \<or> last a = CHR ''/'' then a @ b
      else a @ ''/'' @ b)"

definition os_path_dirname :: "string \<Rightarrow> string" where
  "os_path_dirname p =
     (let head = rev (dropWhile (\<lambda>c. c \<noteq> CHR ''/'') (rev p))
      in if head \<noteq> [] \<and> \<not> list_all (\<lambda>c. c = CHR ''/'') head
         then rev (dropWhile (\<lambda>c. c = CHR ''/'') (rev head))
         else head)"

definition os_path_isfile :: "filesystem \<Rightarrow> string \<Rightarrow> bool" where
  "os_path_isfile f p = (files f p \<noteq> None)"

definition os_path_isdir :: "filesystem \<Rightarrow> string \<Rightarrow> bool" where
  "os_path_isdir f p = (p \<in> dirs f)"

definition os_makedirs :: "filesystem \<Rightarrow> string \<Rightarrow> filesystem" where
  "os_makedirs f d = f\<lparr>dirs := insert d (dirs f)\<rparr>"

definition can_open_w :: "filesystem \<Rightarrow> string \<Rightarrow> bool" where
  "can_open_w f p = (os_path_dirname p \<in> dirs f \<and> p \<notin> dirs f \<and> p \<notin> locked f)"

definition write_file :: "filesystem \<Rightarrow> string \<Rightarrow> string \<Rightarrow> error + filesystem" where
  "write_file f p content =
     (if can_open_w f p then Inr (f\<lparr>files := (files f)(p \<mapsto> content)\<rparr>)
      else Inl IOError)"

definition read_file :: "filesystem \<Rightarrow> string \<Rightarrow> error + string" where
  "read_file f p = (case files f p of None \<Rightarrow> Inl IOError | Some content \<Rightarrow> Inr content)"

text \<open>
  The class attribute \<open>_keys_dir\<close> and the two constants of \<open>golem.core.variables\<close> are
  parameters. The prefixes hold no brace, so formatting the pattern \<open>PREF + "{}.pem"\<close>
  puts the argument between the prefix and the extension.
\<close>

record config =
  keys_dir :: string
  PRIVATE_KEY_PREF :: string
  PUBLIC_KEY_PREF :: string

definition get_key_loc :: "config \<Rightarrow> string \<Rightarrow> string \<Rightarrow> string option \<Rightarrow> string" where
  "get_key_loc cfg pref ext u =
     (let file_name = pref @ (case u of None \<Rightarrow> [] | Some s \<Rightarrow> s) @ ext
      in os_path_join (keys_dir cfg) file_name)"

definition get_private_key_loc :: "config \<Rightarrow> string option \<Rightarrow> string" where
  "get_private_key_loc cfg u = get_key_loc cfg (PRIVATE_KEY_PREF cfg) ''.pem'' u"

definition get_public_key_loc :: "config \<Rightarrow> string option \<Rightarrow> string" where
  "get_public_key_loc cfg u = get_key_loc cfg (PUBLIC_KEY_PREF cfg) ''.pubkey'' u"

text \<open>\<open>str(uuid)\<close> of the constructor: \<open>str(None)\<close> is the four letters \<open>None\<close>.\<close>

definition str_of_uuid :: "string option \<Rightarrow> string" where
  "str_of_uuid u = (case u of None \<Rightarrow> ''None'' | Some s \<Rightarrow> s)"

text \<open>
  \<open>KeysAuth.__init__\<close>; the three methods it calls on \<open>self\<close> are those of the subclass.
\<close>

definition KeysAuth_init ::
  "(string option \<Rightarrow> world \<Rightarrow> (error + 'priv) \<times> world) \<Rightarrow>
   (string option \<Rightarrow> world \<Rightarrow> (error + 'pub) \<times> world) \<Rightarrow>
   ('pub \<Rightarrow> string) \<Rightarrow> string option \<Rightarrow> world \<Rightarrow>
   (error + ('priv, 'pub) KeysAuth) \<times> world" where
  "KeysAuth_init load_private_key load_public_key cnt_key_id u w =
     (case load_private_key (Some (str_of_uuid u)) w of
        (Inl e, w1) \<Rightarrow> (Inl e, w1)
      | (Inr priv, w1) \<Rightarrow>
          (case load_public_key (Some (str_of_uuid u)) w1 of
             (Inl e, w2) \<Rightarrow> (Inl e, w2)
           | (Inr pub, w2) \<Rightarrow>
               (Inr \<lparr>private_key = priv, public_key = pub,
                     key_id = cnt_key_id pub, uuid = u\<rparr>, w2)))"

subsection \<open>Hexadecimal codec of Python 2 strings\<close>

definition hexdigits :: string where
  "hexdigits = ''0123456789abcdef''"

definition encode_hex :: "string \<Rightarrow> string" where
  "encode_hex s =
     concat (map (\<lambda>c. [hexdigits ! (of_char c div 16), hexdigits ! (of_char c mod 16)]) s)"

definition hexval :: "char \<Rightarrow> nat option" where
  "hexval c =
     (let n = (of_char c :: nat)
      in if 48 \<le> n \<and> n \<le> 57 then Some (n - 48)
         else if 97 \<le> n \<and> n \<le> 102 then Some (n - 87)
         else if 65 \<le> n \<and> n \<le> 70 then Some (n - 55)
         else None)"

text \<open>\<open>s.decode('hex')\<close> raises TypeError on an odd length and on a character that is no
  hexadecimal digit.\<close>

fun decode_hex :: "string \<Rightarrow> error + string" where
  "decode_hex [] = Inr []"
| "decode_hex [a] = Inl TypeError"
| "decode_hex (a # b # rest) =
     (case hexval a of
        None \<Rightarrow> Inl TypeError
      | Some x \<Rightarrow>
          (case hexval b of
             None \<Rightarrow> Inl TypeError
           | Some y \<Rightarrow>
               (case decode_hex rest of
                  Inl e \<Rightarrow> Inl e
                | Inr s \<Rightarrow> Inr (char_of (16 * x + y) # s))))"

subsection \<open>EllipticalKeysAuth\<close>

text \<open>
  The module \<open>crypto\<close> (\<open>mk_privkey\<close>, \<open>privtopub\<close>, \<open>ECCx\<close>) and the random generator
  are parameters. \<open>random_str n\<close> is \<open>str(random())\<close> at the \<open>n\<close>-th draw of the process;
  \<open>ECCx pub priv\<close> is the constructor call \<open>ECCx(pub, priv)\<close>, \<open>ecc_verify e sig data\<close>
  the call \<open>e.verify(sig, data)\<close>. Keys are byte strings.
\<close>

record 'e ECC_lib =
  random_str :: "nat \<Rightarrow> string"
  mk_privkey :: "string \<Rightarrow> string"
  privtopub :: "string \<Rightarrow> error + string"
  ECCx :: "string option \<Rightarrow> string option \<Rightarrow> error + 'e"
  ecc_verify :: "'e \<Rightarrow> string \<Rightarrow> string \<Rightarrow> error + bool"

definition EllipticalKeysAuth_cnt_key_id :: "string \<Rightarrow> string" where
  "EllipticalKeysAuth_cnt_key_id pub = encode_hex pub"

definition EllipticalKeysAuth_verify ::
  "'e ECC_lib \<Rightarrow> 'e EllipticalKeysAuth \<Rightarrow> string \<Rightarrow> string \<Rightarrow> string option \<Rightarrow> error + bool" where
  "EllipticalKeysAuth_verify L self sig data pub_arg =
     (let handler = (\<lambda>e. if e = AssertionError then Inr False else Inl e);
          pub = (case pub_arg of None \<Rightarrow> public_key self | Some k \<Rightarrow> k)
      in case (if length pub = 128 then decode_hex pub else Inr pub) of
           Inl e \<Rightarrow> handler e
         | Inr raw \<Rightarrow>
             (case ECCx L (Some raw) None of
                Inl e \<Rightarrow> handler e
              | Inr e \<Rightarrow>
                  (case ecc_verify L e sig data of
                     Inl e \<Rightarrow> handler e
                   | Inr b \<Rightarrow> Inr b)))"

definition EllipticalKeysAuth_save_to_files ::
  "'e EllipticalKeysAuth \<Rightarrow> string \<Rightarrow> string \<Rightarrow> world \<Rightarrow> (error + bool) \<times> world" where
  "EllipticalKeysAuth_save_to_files self private_key_loc public_key_loc w =
     (let handler = (\<lambda>e. if e = IOError then Inr False else Inl e)
      in case write_file (fs w) private_key_loc (private_key self) of
           Inl e \<Rightarrow> (handler e, w)
         | Inr f1 \<Rightarrow>
             (case write_file f1 public_key_loc (public_key self) of
                Inl e \<Rightarrow> (handler e, w\<lparr>fs := f1\<rparr>)
              | Inr f2 \<Rightarrow> (Inr True, w\<lparr>fs := f2\<rparr>)))"

definition EllipticalKeysAuth_set_and_save ::
  "'e ECC_lib \<Rightarrow> config \<Rightarrow> 'e EllipticalKeysAuth \<Rightarrow> string \<Rightarrow> string \<Rightarrow> world \<Rightarrow>
   (error + unit) \<times> 'e EllipticalKeysAuth \<times> world" where
  "EllipticalKeysAuth_set_and_save L cfg self priv_key pub_key w =
     (let priv_key_loc = get_private_key_loc cfg (uuid self);
          pub_key_loc = get_public_key_loc cfg (uuid self);
          self1 = self\<lparr>private_key := priv_key, public_key := pub_key,
                       key_id := EllipticalKeysAuth_cnt_key_id pub_key\<rparr>
      in case EllipticalKeysAuth_save_to_files self1 priv_key_loc pub_key_loc w of
           (Inl e, w1) \<Rightarrow> (Inl e, self1, w1)
         | (Inr saved, w1) \<Rightarrow>
             (case ECCx L None (Some (private_key self1)) of
                Inl e \<Rightarrow> (Inl e, self1, w1)
              | Inr e \<Rightarrow> (Inr (), self1\<lparr>ecc := e\<rparr>, w1)))"

text \<open>
  The search of \<open>generate_new\<close>: the candidate drawn before the loop and the one drawn
  in its body are the same two statements, so the recursion draws, tests and draws again.
  The result carries the number of draws made.
\<close>

partial_function (option) EllipticalKeysAuth_generate_new_loop ::
  "'e ECC_lib \<Rightarrow> hashfn \<Rightarrow> rat \<Rightarrow> nat \<Rightarrow> ((error + string \<times> string) \<times> nat) option" where
  "EllipticalKeysAuth_generate_new_loop L sha256 min_hash n =
     (case privtopub L (mk_privkey L (random_str L n)) of
        Inl e \<Rightarrow> Some (Inl e, Suc n)
      | Inr pub_key \<Rightarrow>
          (case sha2 sha256 (Str (EllipticalKeysAuth_cnt_key_id pub_key)) of
             Inl e \<Rightarrow> Some (Inl e, Suc n)
           | Inr h \<Rightarrow>
               if of_int h > min_hash
               then EllipticalKeysAuth_generate_new_loop L sha256 min_hash (Suc n)
               else Some (Inr (mk_privkey L (random_str L n), pub_key), Suc n)))"

definition EllipticalKeysAuth_generate_new ::
  "'e ECC_lib \<Rightarrow> hashfn \<Rightarrow> config \<Rightarrow> 'e EllipticalKeysAuth \<Rightarrow> int \<Rightarrow> world \<Rightarrow>
   ((error + unit) \<times> 'e EllipticalKeysAuth \<times> world) option" where
  "EllipticalKeysAuth_generate_new L sha256 cfg self difficulty w =
     (case count_min_hash difficulty of
        Inl e \<Rightarrow> Some (Inl e, self, w)
      | Inr min_hash \<Rightarrow>
          (case EllipticalKeysAuth_generate_new_loop L sha256 min_hash (draws w) of
             None \<Rightarrow> None
           | Some (Inl e, n) \<Rightarrow> Some (Inl e, self, w\<lparr>draws := n\<rparr>)
           | Some (Inr (priv_key, pub_key), n) \<Rightarrow>
               Some (EllipticalKeysAuth_set_and_save L cfg self priv_key pub_key
                       (w\<lparr>draws := n\<rparr>))))"

definition EllipticalKeysAuth_load_private_key_from_file ::
  "filesystem \<Rightarrow> string \<Rightarrow> error + string option" where
  "EllipticalKeysAuth_load_private_key_from_file f file_name =
     (if \<not> os_path_isfile f file_name then Inr None
      else case read_file f file_name of Inl e \<Rightarrow> Inl e | Inr key \<Rightarrow> Inr (Some key))"

definition EllipticalKeysAuth_load_from_file ::
  "'e ECC_lib \<Rightarrow> config \<Rightarrow> 'e EllipticalKeysAuth \<Rightarrow> string \<Rightarrow> world \<Rightarrow>
   (error + bool) \<times> 'e EllipticalKeysAuth \<times> world" where
  "EllipticalKeysAuth_load_from_file L cfg self file_name w =
     (case EllipticalKeysAuth_load_private_key_from_file (fs w) file_name of
        Inl e \<Rightarrow> (Inl e, self, w)
      | Inr None \<Rightarrow> (Inr False, self, w)
      | Inr (Some priv_key) \<Rightarrow>
          (case privtopub L priv_key of
             Inl e \<Rightarrow> (if e = AssertionError then Inr False else Inl e, self, w)
           | Inr pub_key \<Rightarrow>
               (case EllipticalKeysAuth_set_and_save L cfg self priv_key pub_key w of
                  (Inl e, self1, w1) \<Rightarrow> (Inl e, self1, w1)
                | (Inr done, self1, w1) \<Rightarrow> (Inr True, self1, w1))))"

definition EllipticalKeysAuth_generate_keys ::
  "'e ECC_lib \<Rightarrow> config \<Rightarrow> string option \<Rightarrow> world \<Rightarrow> (error + unit) \<times> world" where
  "EllipticalKeysAuth_generate_keys L cfg u w =
     (let private_key_loc = get_private_key_loc cfg u;
          public_key_loc = get_public_key_loc cfg u;
          key = mk_privkey L (random_str L (draws w));
          w1 = w\<lparr>draws := Suc (draws w)\<rparr>
      in case privtopub L key of
           Inl e \<Rightarrow> (Inl e, w1)
         | Inr pub_key \<Rightarrow>
             (let kdir = os_path_dirname private_key_loc;
                  f1 = (if \<not> os_path_isdir (fs w1) kdir then os_makedirs (fs w1) kdir
                        else fs w1)
              in case write_file f1 private_key_loc key of
                   Inl e \<Rightarrow> (Inl e, w1\<lparr>fs := f1\<rparr>)
                 | Inr f2 \<Rightarrow>
                     (case write_file f2 public_key_loc pub_key of
                        Inl e \<Rightarrow> (Inl e, w1\<lparr>fs := f2\<rparr>)
                      | Inr f3 \<Rightarrow> (Inr (), w1\<lparr>fs := f3\<rparr>))))"

definition EllipticalKeysAuth_load_private_key ::
  "'e ECC_lib \<Rightarrow> config \<Rightarrow> string option \<Rightarrow> world \<Rightarrow> (error + string) \<times> world" where
  "EllipticalKeysAuth_load_private_key L cfg u w =
     (let private_key_loc = get_private_key_loc cfg u;
          public_key_loc = get_public_key_loc cfg u
      in case (if \<not> os_path_isfile (fs w) private_key_loc \<or> \<not> os_path_isfile (fs w) public_key_loc
               then EllipticalKeysAuth_generate_keys L cfg u w else (Inr (), w)) of
           (Inl e, w1) \<Rightarrow> (Inl e, w1)
         | (Inr done, w1) \<Rightarrow> (read_file (fs w1) private_key_loc, w1))"

definition EllipticalKeysAuth_load_public_key ::
  "'e ECC_lib \<Rightarrow> config \<Rightarrow> string option \<Rightarrow> world \<Rightarrow> (error + string) \<times> world" where
  "EllipticalKeysAuth_load_public_key L cfg u w =
     (let private_key_loc = get_private_key_loc cfg u;
          public_key_loc = get_public_key_loc cfg u
      in case (if \<not> os_path_isfile (fs w) private_key_loc \<or> \<not> os_path_isfile (fs w) public_key_loc
               then EllipticalKeysAuth_generate_keys L cfg u w else (Inr (), w)) of
           (Inl e, w1) \<Rightarrow> (Inl e, w1)
         | (Inr done, w1) \<Rightarrow> (read_file (fs w1) public_key_loc, w1))"

text \<open>
  \<open>EllipticalKeysAuth.__init__\<close>: the base constructor resolves the files of \<open>str(uuid)\<close>;
  the recovery branch after an AssertionError passes \<open>uuid\<close> itself.
\<close>

definition EllipticalKeysAuth_init ::
  "'e ECC_lib \<Rightarrow> config \<Rightarrow> string option \<Rightarrow> world \<Rightarrow>
   (error + 'e EllipticalKeysAuth) \<times> world" where
  "EllipticalKeysAuth_init L cfg u w =
     (case KeysAuth_init (EllipticalKeysAuth_load_private_key L cfg)
             (EllipticalKeysAuth_load_public_key L cfg) EllipticalKeysAuth_cnt_key_id u w of
        (Inl e, w1) \<Rightarrow> (Inl e, w1)
      | (Inr self, w1) \<Rightarrow>
          (case ECCx L None (Some (private_key self)) of
             Inr e \<Rightarrow>
               (Inr \<lparr>private_key = private_key self, public_key = public_key self,
                     key_id = key_id self, uuid = uuid self, ecc = e\<rparr>, w1)
           | Inl err \<Rightarrow>
               if err \<noteq> AssertionError then (Inl err, w1)
               else
                 (case EllipticalKeysAuth_generate_keys L cfg u w1 of
                    (Inl e, w2) \<Rightarrow> (Inl e, w2)
                  | (Inr done, w2) \<Rightarrow>
                      (case EllipticalKeysAuth_load_private_key L cfg u w2 of
                         (Inl e, w3) \<Rightarrow> (Inl e, w3)
                       | (Inr priv, w3) \<Rightarrow>
                           (case EllipticalKeysAuth_load_public_key L cfg u w3 of
                              (Inl e, w4) \<Rightarrow> (Inl e, w4)
                            | (Inr pub, w4) \<Rightarrow>
                                (case ECCx L None (Some priv) of
                                   Inl e \<Rightarrow> (Inl e, w4)
                                 | Inr e \<Rightarrow>
                                     (Inr \<lparr>private_key = priv, public_key = pub,
                                           key_id = EllipticalKeysAuth_cnt_key_id pub,
                                           uuid = uuid self, ecc = e\<rparr>, w4)))))))"

subsection \<open>RSAKeysAuth\<close>

text \<open>
  PyCrypto's RSA module and \<open>SimpleHash\<close> are parameters; \<open>'k\<close> is the type of key
  objects. \<open>RSA_generate n\<close> is the key that \<open>RSA.generate(2048)\<close> returns at the
  \<open>n\<close>-th draw of the process, \<open>exportKey k fmt\<close> the call \<open>k.exportKey(fmt)\<close> (the format
  defaults to PEM), \<open>rsa_verify k data sig\<close> the call \<open>k.verify(data, sig)\<close>.
\<close>

record 'k RSA_lib =
  RSA_generate :: "nat \<Rightarrow> 'k"
  publickey :: "'k \<Rightarrow> error + 'k"
  exportKey :: "'k \<Rightarrow> string \<Rightarrow> string"
  RSA_importKey :: "string \<Rightarrow> error + 'k"
  rsa_verify :: "'k \<Rightarrow> string \<Rightarrow> string \<Rightarrow> error + bool"
  hash_hex :: "string \<Rightarrow> string"

definition RSAKeysAuth_cnt_key_id :: "'k RSA_lib \<Rightarrow> 'k \<Rightarrow> string" where
  "RSAKeysAuth_cnt_key_id L pub = hash_hex L (drop 8 (exportKey L pub ''OpenSSH''))"

definition RSAKeysAuth_verify ::
  "'k RSA_lib \<Rightarrow> 'k RSAKeysAuth \<Rightarrow> string \<Rightarrow> string \<Rightarrow> 'k option \<Rightarrow> error + bool" where
  "RSAKeysAuth_verify L self sig data pub_arg =
     (let pub = (case pub_arg of None \<Rightarrow> public_key self | Some k \<Rightarrow> k)
      in rsa_verify L pub data sig)"

text \<open>
  The search of \<open>RSAKeysAuth.generate_new\<close>. Its test is \<open>sha2(pub_key)\<close>, on the key
  object itself.
\<close>

partial_function (option) RSAKeysAuth_generate_new_loop ::
  "'k RSA_lib \<Rightarrow> hashfn \<Rightarrow> rat \<Rightarrow> nat \<Rightarrow> ((error + 'k \<times> 'k) \<times> nat) option" where
  "RSAKeysAuth_generate_new_loop L sha256 min_hash n =
     (case publickey L (RSA_generate L n) of
        Inl e \<Rightarrow> Some (Inl e, Suc n)
      | Inr pub_key \<Rightarrow>
          (case sha2 sha256 Instance of
             Inl e \<Rightarrow> Some (Inl e, Suc n)
           | Inr h \<Rightarrow>
               if of_int h > min_hash
               then RSAKeysAuth_generate_new_loop L sha256 min_hash (Suc n)
               else Some (Inr (RSA_generate L n, pub_key), Suc n)))"

definition RSAKeysAuth_generate_new ::
  "'k RSA_lib \<Rightarrow> hashfn \<Rightarrow> config \<Rightarrow> 'k RSAKeysAuth \<Rightarrow> int \<Rightarrow> world \<Rightarrow>
   ((error + unit) \<times> 'k RSAKeysAuth \<times> world) option" where
  "RSAKeysAuth_generate_new L sha256 cfg self difficulty w =
     (case count_min_hash difficulty of
        Inl e \<Rightarrow> Some (Inl e, self, w)
      | Inr min_hash \<Rightarrow>
          (case RSAKeysAuth_generate_new_loop L sha256 min_hash (draws w) of
             None \<Rightarrow> None
           | Some (Inl e, n) \<Rightarrow> Some (Inl e, self, w\<lparr>draws := n\<rparr>)
           | Some (Inr (priv_key, pub_key), n) \<Rightarrow>
               (let priv_key_loc = get_private_key_loc cfg (uuid self);
                    pub_key_loc = get_public_key_loc cfg (uuid self)
                in case write_file (fs w) priv_key_loc (exportKey L priv_key ''PEM'') of
                     Inl e \<Rightarrow> Some (Inl e, self, w\<lparr>draws := n\<rparr>)
                   | Inr f1 \<Rightarrow>
                       (case write_file f1 pub_key_loc (exportKey L pub_key ''PEM'') of
                          Inl e \<Rightarrow> Some (Inl e, self, w\<lparr>draws := n, fs := f1\<rparr>)
                        | Inr f2 \<Rightarrow> Some (Inr (), self, w\<lparr>draws := n, fs := f2\<rparr>)))))"

definition RSAKeysAuth_load_private_key_from_file ::
  "'k RSA_lib \<Rightarrow> filesystem \<Rightarrow> string \<Rightarrow> error + 'k option" where
  "RSAKeysAuth_load_private_key_from_file L f file_name =
     (let handler = (\<lambda>e. if e \<in> {ValueError, IndexError, TypeError, IOError}
                          then Inr None else Inl e)
      in if \<not> os_path_isfile f file_name then Inr None
         else case read_file f file_name of
                Inl e \<Rightarrow> handler e
              | Inr content \<Rightarrow>
                  (case RSA_importKey L content of
                     Inl e \<Rightarrow> handler e
                   | Inr key \<Rightarrow> Inr (Some key)))"

definition RSAKeysAuth_set_and_save ::
  "'k RSA_lib \<Rightarrow> config \<Rightarrow> 'k RSAKeysAuth \<Rightarrow> 'k \<Rightarrow> 'k \<Rightarrow> world \<Rightarrow>
   (error + unit) \<times> 'k RSAKeysAuth \<times> world" where
  "RSAKeysAuth_set_and_save L cfg self priv_key pub_key w =
     (let self1 = self\<lparr>private_key := priv_key, public_key := pub_key,
                       key_id := RSAKeysAuth_cnt_key_id L pub_key\<rparr>;
          private_key_loc = get_private_key_loc cfg (uuid self1);
          public_key_loc = get_public_key_loc cfg (uuid self1)
      in case write_file (fs w) private_key_loc (exportKey L priv_key ''PEM'') of
           Inl e \<Rightarrow> (Inl e, self1, w)
         | Inr f1 \<Rightarrow>
             (case write_file f1 public_key_loc (exportKey L pub_key ''PEM'') of
                Inl e \<Rightarrow> (Inl e, self1, w\<lparr>fs := f1\<rparr>)
              | Inr f2 \<Rightarrow> (Inr (), self1, w\<lparr>fs := f2\<rparr>)))"

definition RSAKeysAuth_load_from_file ::
  "'k RSA_lib \<Rightarrow> config \<Rightarrow> 'k RSAKeysAuth \<Rightarrow> string \<Rightarrow> world \<Rightarrow>
   (error + bool) \<times> 'k RSAKeysAuth \<times> world" where
  "RSAKeysAuth_load_from_file L cfg self file_name w =
     (case RSAKeysAuth_load_private_key_from_file L (fs w) file_name of
        Inl e \<Rightarrow> (Inl e, self, w)
      | Inr None \<Rightarrow> (Inr False, self, w)
      | Inr (Some priv_key) \<Rightarrow>
          (case publickey L priv_key of
             Inl e \<Rightarrow> (if e \<in> {AssertionError, AttributeError} then Inr False else Inl e,
                        self, w)
           | Inr pub_key \<Rightarrow>
               (case RSAKeysAuth_set_and_save L cfg self priv_key pub_key w of
                  (Inl e, self1, w1) \<Rightarrow> (Inl e, self1, w1)
                | (Inr done, self1, w1) \<Rightarrow> (Inr True, self1, w1))))"

definition RSAKeysAuth_generate_keys ::
  "'k RSA_lib \<Rightarrow> config \<Rightarrow> string option \<Rightarrow> world \<Rightarrow> (error + unit) \<times> world" where
  "RSAKeysAuth_generate_keys L cfg u w =
     (let private_key_loc = get_private_key_loc cfg u;
          public_key_loc = get_public_key_loc cfg u;
          key = RSA_generate L (draws w);
          w1 = w\<lparr>draws := Suc (draws w)\<rparr>
      in case publickey L key of
           Inl e \<Rightarrow> (Inl e, w1)
         | Inr pub_key \<Rightarrow>
             (case write_file (fs w1) private_key_loc (exportKey L key ''PEM'') of
                Inl e \<Rightarrow> (Inl e, w1)
              | Inr f1 \<Rightarrow>
                  (case write_file f1 public_key_loc (exportKey L pub_key ''PEM'') of
                     Inl e \<Rightarrow> (Inl e, w1\<lparr>fs := f1\<rparr>)
                   | Inr f2 \<Rightarrow> (Inr (), w1\<lparr>fs := f2\<rparr>))))"

definition RSAKeysAuth_load_private_key ::
  "'k RSA_lib \<Rightarrow> config \<Rightarrow> string option \<Rightarrow> world \<Rightarrow> (error + 'k) \<times> world" where
  "RSAKeysAuth_load_private_key L cfg u w =
     (let private_key_loc = get_private_key_loc cfg u;
          public_key_loc = get_public_key_loc cfg u
      in case (if \<not> os_path_isfile (fs w) private_key_loc \<or> \<not> os_path_isfile (fs w) public_key_loc
               then RSAKeysAuth_generate_keys L cfg u w else (Inr (), w)) of
           (Inl e, w1) \<Rightarrow> (Inl e, w1)
         | (Inr done, w1) \<Rightarrow>
             (case read_file (fs w1) private_key_loc of
                Inl e \<Rightarrow> (Inl e, w1)
              | Inr content \<Rightarrow> (RSA_importKey L content, w1)))"

definition RSAKeysAuth_load_public_key ::
  "'k RSA_lib \<Rightarrow> config \<Rightarrow> string option \<Rightarrow> world \<Rightarrow> (error + 'k) \<times> world" where
  "RSAKeysAuth_load_public_key L cfg u w =
     (let private_key_loc = get_private_key_loc cfg u;
          public_key_loc = get_public_key_loc cfg u
      in case (if \<not> os_path_isfile (fs w) private_key_loc \<or> \<not> os_path_isfile (fs w) public_key_loc
               then RSAKeysAuth_generate_keys L cfg u w else (Inr (), w)) of
           (Inl e, w1) \<Rightarrow> (Inl e, w1)
         | (Inr done, w1) \<Rightarrow>
             (case read_file (fs w1) public_key_loc of
                Inl e \<Rightarrow> (Inl e, w1)
              | Inr content \<Rightarrow> (RSA_importKey L content, w1)))"

definition RSAKeysAuth_init ::
  "'k RSA_lib \<Rightarrow> config \<Rightarrow> string option \<Rightarrow> world \<Rightarrow> (error + 'k RSAKeysAuth) \<times> world" where
  "RSAKeysAuth_init L cfg u w =
     KeysAuth_init (RSAKeysAuth_load_private_key L cfg) (RSAKeysAuth_load_public_key L cfg)
       (RSAKeysAuth_cnt_key_id L) u w"

subsection \<open>A sample instance of the parameters\<close>

text \<open>
  A small digest, library and file system on which the definitions can be run. The sample
  digest of a string is its length, the sample keys are short strings.
\<close>

definition sample_sha256 :: hashfn where
  "sample_sha256 s = word_of_nat (length s)"

definition sample_cfg :: config where
  "sample_cfg = \<lparr>keys_dir = ''/keys'', PRIVATE_KEY_PREF = ''golem_private_key'',
                  PUBLIC_KEY_PREF = ''golem_public_key''\<rparr>"

definition sample_privtopub :: "string \<Rightarrow> error + string" where
  "sample_privtopub priv = (if take 2 priv = ''0.'' then Inr (rev priv) else Inl AssertionError)"

definition sample_ECC :: "string ECC_lib" where
  "sample_ECC =
     \<lparr>random_str = (\<lambda>n. if n = 0 then ''0.8444218515'' else if n = 1 then ''0.75'' else ''0.4''),
      mk_privkey = (\<lambda>seed. seed),
      privtopub = sample_privtopub,
      ECCx = (\<lambda>pub priv. case priv of
                Some k \<Rightarrow> (if pub = None then sample_privtopub k else Inl AssertionError)
              | None \<Rightarrow> (case pub of
                           None \<Rightarrow> Inr []
                         | Some p \<Rightarrow> if length p = 64 then Inr p else Inl AssertionError)),
      ecc_verify = (\<lambda>e sig data. Inr (sig = data))\<rparr>"


definition sample_RSA :: "string RSA_lib" where
  "sample_RSA =
     \<lparr>RSA_generate = (\<lambda>n. replicate (Suc n) CHR ''k''),
      publickey = (\<lambda>k. if k = [] then Inl AssertionError else Inr (CHR ''p'' # k)),
      exportKey = (\<lambda>k fmt. fmt @ '':'' @ k),
      RSA_importKey = (\<lambda>s. if take 4 s = ''PEM:'' then Inr (drop 4 s) else Inl ValueError),
      rsa_verify = (\<lambda>k data sig. Inr (sig = data)),
      hash_hex = (\<lambda>s. s)\<rparr>"

definition sample_fs :: filesystem where
  "sample_fs = \<lparr>files = [''/tmp/key'' \<mapsto> ''0.5'', ''/tmp/junk'' \<mapsto> ''junk'',
                          ''/tmp/empty'' \<mapsto> ''PEM:'', ''/tmp/rsa'' \<mapsto> ''PEM:kk''],
                 dirs = {''/keys'', ''/tmp''}, locked = {}\<rparr>"

definition sample_world :: world where
  "sample_world = \<lparr>fs = sample_fs, draws = 0\<rparr>"

text \<open>The same world with the two default key files of the absent uuid not writable.\<close>

definition locked_world :: world where
  "locked_world =
     \<lparr>fs = sample_fs\<lparr>locked := {''/keys/golem_private_key.pem'',
                                  ''/keys/golem_public_key.pubkey''}\<rparr>,
      draws = 0\<rparr>"

definition sample_EC_auth :: "string EllipticalKeysAuth" where
  "sample_EC_auth =
     \<lparr>private_key = ''0.1'', public_key = ''1.0'', key_id = ''312e30'', uuid = None,
      ecc = ''1.0''\<rparr>"

definition sample_RSA_auth :: "string RSAKeysAuth" where
  "sample_RSA_auth =
     \<lparr>private_key = ''a'', public_key = ''pa'', key_id = ''pa'', uuid = None\<rparr>"

text \<open>
  The world after the sample authority, whose uuid is absent, has imported the key file
  \<open>/tmp/key\<close>.
\<close>

definition imported_world :: world where
  "imported_world =
     snd (snd (EllipticalKeysAuth_load_from_file sample_ECC sample_cfg
                 sample_EC_auth ''/tmp/key'' sample_world))"

section \<open>The difficulty score\<close>

subsection \<open>The threshold\<close>

lemma float_exponent_limit_big: "1074 < float_exponent_limit"
  by (simp add: float_exponent_limit_def)

lemma count_min_hash_cases:
  "count_min_hash d =
     (if d \<le> 256 then Inr (2 ^ nat (256 - d))
      else if float_exponent_limit + 256 \<le> d then Inl OverflowError
      else if d \<le> 1330 then Inr (1 / 2 ^ nat (d - 256))
      else Inr 0)"
  by (auto simp add: count_min_hash_def python_pow2_def)

lemma count_min_hash_returns:
  "d < float_exponent_limit + 256 \<Longrightarrow> \<exists>m. count_min_hash d = Inr m \<and> 0 \<le> m"
  by (simp add: count_min_hash_cases)

lemma count_min_hash_overflow:
  "float_exponent_limit + 256 \<le> d \<Longrightarrow> count_min_hash d = Inl OverflowError"
  using float_exponent_limit_big by (simp add: count_min_hash_cases)

lemma count_min_hash_powi:
  "d \<le> 1330 \<Longrightarrow> count_min_hash d = Inr (2 powi (256 - d))"
  using float_exponent_limit_big
  by (simp add: count_min_hash_cases power_int_def nat_diff_distrib' field_simps)

lemma powi_below_one: "256 < d \<Longrightarrow> (2::rat) powi (256 - d) < 1"
  by (simp add: power_int_def field_simps)

lemma powi_antimono: "d \<le> d' \<Longrightarrow> (2::rat) powi (256 - d') \<le> 2 powi (256 - d)"
  by (rule power_int_increasing) simp_all

text \<open>
  For a hash of at least 1 the test against the value of \<open>pow\<close> is the test against the
  mathematical power, also where the float has underflowed to \<open>0.0\<close>.
\<close>

lemma accept_powi:
  assumes "count_min_hash d = Inr m" and "1 \<le> h"
  shows "rat_of_int h \<le> m \<longleftrightarrow> rat_of_int h \<le> 2 powi (256 - d)"
proof (cases "d \<le> 1330")
  case True
  with assms(1) show ?thesis by (simp add: count_min_hash_powi)
next
  case False
  with assms(1) have "m = 0" by (simp add: count_min_hash_cases split: if_splits)
  moreover from False have "(2::rat) powi (256 - d) < 1" by (simp add: powi_below_one)
  moreover have "1 \<le> rat_of_int h" using assms(2) by simp
  ultimately show ?thesis by linarith
qed

lemma get_difficulty_loop_overflow:
  "count_min_hash d = Inl e \<Longrightarrow> get_difficulty_loop H k d = Some (Inl e)"
  by (subst get_difficulty_loop.simps) simp

lemma get_difficulty_loop_exit:
  "count_min_hash d = Inr m \<Longrightarrow> sha2 H (Str k) = Inr h \<Longrightarrow> \<not> rat_of_int h \<le> m \<Longrightarrow>
   get_difficulty_loop H k d = Some (Inr (d - 1))"
  by (subst get_difficulty_loop.simps) simp

lemma get_difficulty_loop_step:
  "count_min_hash d = Inr m \<Longrightarrow> sha2 H (Str k) = Inr h \<Longrightarrow> rat_of_int h \<le> m \<Longrightarrow>
   get_difficulty_loop H k d = get_difficulty_loop H k (d + 1)"
  by (subst get_difficulty_loop.simps) simp

lemma get_difficulty_loop_returns:
  assumes h: "sha2 H (Str k) = Inr h" and pos: "1 \<le> h"
  shows "d \<le> 257 \<Longrightarrow>
         \<exists>r. get_difficulty_loop H k d = Some (Inr r) \<and> d - 1 \<le> r \<and>
             \<not> rat_of_int h \<le> 2 powi (256 - (r + 1)) \<and>
             (\<forall>d'. d \<le> d' \<and> d' \<le> r \<longrightarrow> rat_of_int h \<le> 2 powi (256 - d'))"
proof (induction "nat (257 - d)" arbitrary: d)
  case 0
  then have d: "d = 257" by simp
  then have c: "count_min_hash d = Inr (2 powi (256 - d))" by (simp add: count_min_hash_powi)
  have "(2::rat) powi (256 - d) < 1" using d by (simp add: powi_below_one)
  moreover have "1 \<le> rat_of_int h" using pos by simp
  ultimately have stop: "\<not> rat_of_int h \<le> 2 powi (256 - d)" by linarith
  show ?case using get_difficulty_loop_exit[OF c h stop] stop by auto
next
  case (Suc n)
  then have c: "count_min_hash d = Inr (2 powi (256 - d))" by (simp add: count_min_hash_powi)
  show ?case
  proof (cases "rat_of_int h \<le> 2 powi (256 - d)")
    case False
    show ?thesis using get_difficulty_loop_exit[OF c h False] False by auto
  next
    case True
    from Suc.hyps(2) have "n = nat (257 - (d + 1))" "d + 1 \<le> 257" by simp_all
    from Suc.hyps(1)[OF this] obtain r where
      r: "get_difficulty_loop H k (d + 1) = Some (Inr r)" "d \<le> r"
         "\<not> rat_of_int h \<le> 2 powi (256 - (r + 1))"
         "\<forall>d'. d + 1 \<le> d' \<and> d' \<le> r \<longrightarrow> rat_of_int h \<le> 2 powi (256 - d')"
      by auto
    have all: "\<forall>d'. d \<le> d' \<and> d' \<le> r \<longrightarrow> rat_of_int h \<le> 2 powi (256 - d')"
    proof (intro allI impI)
      fix d' assume "d \<le> d' \<and> d' \<le> r"
      then consider "d' = d" | "d + 1 \<le> d' \<and> d' \<le> r" by linarith
      then show "rat_of_int h \<le> 2 powi (256 - d')"
        using True r(4) by cases auto
    qed
    show ?thesis
      using get_difficulty_loop_step[OF c h True] r(1,2,3) all by auto
  qed
qed

lemma sha2_Str_range: "sha2 H (Str k) = Inr h \<Longrightarrow> 0 \<le> h \<and> h < 2 ^ 256"
proof -
  assume "sha2 H (Str k) = Inr h"
  then have "h = uint (H k)" by (simp add: sha2_def)
  moreover have "uint (H k) < 2 ^ LENGTH(256)" by (rule uint_bounded)
  ultimately show ?thesis by simp
qed

lemma get_difficulty_loop_threshold:
  assumes h: "sha2 H (Str k) = Inr h" and pos: "0 < h"
  shows "\<exists>r. get_difficulty_loop H k 0 = Some (Inr r) \<and> 0 \<le> r \<and>
             (\<forall>d. rat_of_int h \<le> 2 powi (256 - d) \<longleftrightarrow> d \<le> r)"
proof -
  from pos have one: "1 \<le> h" by simp
  from get_difficulty_loop_returns[OF h one, of 0] obtain r where
    r: "get_difficulty_loop H k 0 = Some (Inr r)" "-1 \<le> r"
       "\<not> rat_of_int h \<le> 2 powi (256 - (r + 1))"
       "\<forall>d'. 0 \<le> d' \<and> d' \<le> r \<longrightarrow> rat_of_int h \<le> 2 powi (256 - d')"
    by auto
  from sha2_Str_range[OF h] have "h \<le> 2 ^ 256" by simp
  then have "rat_of_int h \<le> rat_of_int (2 ^ 256)" by (simp only: of_int_le_iff)
  then have at0: "rat_of_int h \<le> 2 powi (256 - 0)" by simp
  have r0: "0 \<le> r"
  proof (rule ccontr)
    assume "\<not> 0 \<le> r"
    with r(2) have "r + 1 = 0" by simp
    with r(3) at0 show False by simp
  qed
  have atr: "rat_of_int h \<le> 2 powi (256 - r)" using r(4) r0 by simp
  have "rat_of_int h \<le> 2 powi (256 - d) \<longleftrightarrow> d \<le> r" for d
  proof
    assume a: "rat_of_int h \<le> 2 powi (256 - d)"
    show "d \<le> r"
    proof (rule ccontr)
      assume "\<not> d \<le> r"
      then have "r + 1 \<le> d" by simp
      from powi_antimono[OF this] a r(3) show False by linarith
    qed
  next
    assume "d \<le> r"
    from powi_antimono[OF this] atr show "rat_of_int h \<le> 2 powi (256 - d)"
      by linarith
  qed
  with r(1) r0 show ?thesis by blast
qed

text \<open>
  A digest of 0, which no known identifier has, would pass every test: the count would go
  on until the exponent no longer converts to a float, more than \<open>2 ^ 1023\<close> passes later,
  and end in OverflowError.
\<close>

lemma get_difficulty_loop_zero_hash:
  assumes z: "sha2 H (Str k) = Inr 0"
  shows "get_difficulty_loop H k d = Some (Inl OverflowError)"
proof (induction "nat (float_exponent_limit + 256 - d)" arbitrary: d)
  case 0
  then have "float_exponent_limit + 256 \<le> d" by simp
  then show ?case
    by (simp add: count_min_hash_overflow get_difficulty_loop_overflow)
next
  case (Suc n)
  then have "d < float_exponent_limit + 256" by simp
  from count_min_hash_returns[OF this] obtain m where
    m: "count_min_hash d = Inr m" "0 \<le> m" by blast
  then have t: "rat_of_int 0 \<le> m" by simp
  from Suc.hyps(2) have "n = nat (float_exponent_limit + 256 - (d + 1))" by simp
  from Suc.hyps(1)[OF this] get_difficulty_loop_step[OF m(1) z t] show ?case by simp
qed

lemma get_difficulty_Some:
  "get_difficulty H self (Some k) = get_difficulty_loop H k 0"
  by (simp add: get_difficulty_def)

lemma get_difficulty_None:
  "get_difficulty H self None = get_difficulty_loop H (key_id self) 0"
  by (simp add: get_difficulty_def)

lemma sample_sha2: "length s < 1000 \<Longrightarrow> sha2 sample_sha256 (Str s) = Inr (int (length s))"
proof -
  assume "length s < 1000"
  then have "length s < 2 ^ 256" by simp
  then have "take_bit 256 (length s) = length s"
    by (simp add: take_bit_nat_eq_self)
  then show ?thesis
    by (simp add: sha2_def sample_sha256_def unsigned_of_nat)
qed

subsection \<open>The score is the largest difficulty that the hash meets\<close>



subsection \<open>The threshold test against the score\<close>



subsection \<open>Monotonicity\<close>



section \<open>The proof-of-work search\<close>

lemma sha2_Instance: "sha2 H Instance = Inl TypeError"
  by (simp add: sha2_def)

lemma RSAKeysAuth_generate_new_loop_raises:
  "RSAKeysAuth_generate_new_loop L H m n =
     Some (Inl (case publickey L (RSA_generate L n) of Inl e \<Rightarrow> e | Inr pub \<Rightarrow> TypeError), Suc n)"
  by (subst RSAKeysAuth_generate_new_loop.simps)
     (simp add: sha2_Instance split: sum.split)

lemma count_min_hash_samples:
  "count_min_hash 0 = Inr (2 ^ 256)" "count_min_hash 252 = Inr 16"
  by (simp_all add: count_min_hash_cases)

text \<open>
  C1 fails on the RSA backend. The test of its search is \<open>sha2(pub_key)\<close>, on the key
  object and not on \<open>cnt_key_id(pub_key)\<close> as in the elliptic backend; hashlib refuses the
  object, so every call of \<open>RSAKeysAuth.generate_new\<close> ends in an exception, at the latest
  after the first draw (TypeError, unless \<open>pow\<close> or \<open>publickey\<close> raised before), for every
  difficulty, with nothing written and the authority unchanged. No key pair is ever
  accepted on the hash of its identifier.
\<close>

theorem RSAKeysAuth_generate_new_raises:
  "RSAKeysAuth_generate_new L sha256 cfg self difficulty w =
     (case count_min_hash difficulty of
        Inl e \<Rightarrow> Some (Inl e, self, w)
      | Inr min_hash \<Rightarrow>
          Some (Inl (case publickey L (RSA_generate L (draws w)) of
                       Inl e \<Rightarrow> e | Inr pub \<Rightarrow> TypeError),
                self, w\<lparr>draws := Suc (draws w)\<rparr>))"
  by (simp add: RSAKeysAuth_generate_new_def RSAKeysAuth_generate_new_loop_raises
        split: sum.split)

lemma RSAKeysAuth_generate_new_sample:
  "RSAKeysAuth_generate_new sample_RSA sample_sha256 sample_cfg sample_RSA_auth 0 sample_world =
     Some (Inl TypeError, sample_RSA_auth, sample_world\<lparr>draws := 1\<rparr>)"
  by (simp add: RSAKeysAuth_generate_new_def RSAKeysAuth_generate_new_loop_raises
        count_min_hash_samples sample_RSA_def sample_world_def)

lemma EllipticalKeysAuth_generate_new_loop_result:
  assumes "EllipticalKeysAuth_generate_new_loop L H m n = Some y"
  shows "\<forall>priv pub n'. y = (Inr (priv, pub), n') \<longrightarrow>
             (\<exists>k h. n \<le> k \<and> n' = Suc k \<and> priv = mk_privkey L (random_str L k) \<and>
               privtopub L priv = Inr pub \<and>
               sha2 H (Str (EllipticalKeysAuth_cnt_key_id pub)) = Inr h \<and>
               rat_of_int h \<le> m)"
proof (rule EllipticalKeysAuth_generate_new_loop.raw_induct
         [where P = "\<lambda>L H m n y. \<forall>priv pub n'. y = (Inr (priv, pub), n') \<longrightarrow>
             (\<exists>k h. n \<le> k \<and> n' = Suc k \<and> priv = mk_privkey L (random_str L k) \<and>
               privtopub L priv = Inr pub \<and>
               sha2 H (Str (EllipticalKeysAuth_cnt_key_id pub)) = Inr h \<and>
               rat_of_int h \<le> m)", OF _ assms])
  fix loop :: "'a ECC_lib \<Rightarrow> hashfn \<Rightarrow> rat \<Rightarrow> nat \<Rightarrow> ((error + string \<times> string) \<times> nat) option"
  fix L H m n y
  assume IH: "\<And>L H m n y. loop L H m n = Some y \<Longrightarrow>
     \<forall>priv pub n'. y = (Inr (priv, pub), n') \<longrightarrow>
             (\<exists>k h. n \<le> k \<and> n' = Suc k \<and> priv = mk_privkey L (random_str L k) \<and>
               privtopub L priv = Inr pub \<and>
               sha2 H (Str (EllipticalKeysAuth_cnt_key_id pub)) = Inr h \<and>
               rat_of_int h \<le> m)"
  assume body: "(case privtopub L (mk_privkey L (random_str L n)) of
        Inl e \<Rightarrow> Some (Inl e, Suc n)
      | Inr pub_key \<Rightarrow>
          (case sha2 H (Str (EllipticalKeysAuth_cnt_key_id pub_key)) of
             Inl e \<Rightarrow> Some (Inl e, Suc n)
           | Inr h \<Rightarrow>
               if of_int h > m
               then loop L H m (Suc n)
               else Some (Inr (mk_privkey L (random_str L n), pub_key), Suc n))) = Some y"
  show "\<forall>priv pub n'. y = (Inr (priv, pub), n') \<longrightarrow>
             (\<exists>k h. n \<le> k \<and> n' = Suc k \<and> priv = mk_privkey L (random_str L k) \<and>
               privtopub L priv = Inr pub \<and>
               sha2 H (Str (EllipticalKeysAuth_cnt_key_id pub)) = Inr h \<and>
               rat_of_int h \<le> m)"
  proof (intro allI impI)
    fix priv pub n' assume y: "y = (Inr (priv, pub), n')"
    show "\<exists>k h. n \<le> k \<and> n' = Suc k \<and> priv = mk_privkey L (random_str L k) \<and>
               privtopub L priv = Inr pub \<and>
               sha2 H (Str (EllipticalKeysAuth_cnt_key_id pub)) = Inr h \<and>
               rat_of_int h \<le> m"
    proof (cases "privtopub L (mk_privkey L (random_str L n))")
      case (Inl e)
      with body y show ?thesis by simp
    next
      case (Inr pub_key)
      show ?thesis
      proof (cases "sha2 H (Str (EllipticalKeysAuth_cnt_key_id pub_key))")
        case (Inl e)
        with body y Inr show ?thesis by simp
      next
        case h: (Inr h)
        show ?thesis
        proof (cases "rat_of_int h > m")
          case True
          with body Inr h have "loop L H m (Suc n) = Some y" by simp
          from IH[OF this] y obtain k h' where
            "Suc n \<le> k" "n' = Suc k" "priv = mk_privkey L (random_str L k)"
            "privtopub L priv = Inr pub"
            "sha2 H (Str (EllipticalKeysAuth_cnt_key_id pub)) = Inr h'" "rat_of_int h' \<le> m"
            by blast
          then show ?thesis by (intro exI[of _ k] exI[of _ h']) simp
        next
          case False
          with body Inr h y have "priv = mk_privkey L (random_str L n)" "pub = pub_key" "n' = Suc n"
            by simp_all
          with Inr h False show ?thesis by (intro exI[of _ n] exI[of _ h]) simp
        qed
      qed
    qed
  qed
qed

lemma EllipticalKeysAuth_generate_new_loop_accepts:
  assumes "EllipticalKeysAuth_generate_new_loop L H m n = Some (Inr (priv, pub), n')"
  shows "\<exists>k h. n \<le> k \<and> n' = Suc k \<and> priv = mk_privkey L (random_str L k) \<and>
               privtopub L priv = Inr pub \<and>
               sha2 H (Str (EllipticalKeysAuth_cnt_key_id pub)) = Inr h \<and>
               rat_of_int h \<le> m"
  using EllipticalKeysAuth_generate_new_loop_result[OF assms] by blast

section \<open>Saving and loading keys\<close>

subsection \<open>Files and the elliptic \<open>_set_and_save\<close>\<close>

lemma os_path_join_last: "b \<noteq> [] \<Longrightarrow> last (os_path_join a b) = last b"
  by (simp add: os_path_join_def)

lemma key_locs_distinct: "get_private_key_loc cfg u \<noteq> get_public_key_loc cfg v"
proof
  assume eq: "get_private_key_loc cfg u = get_public_key_loc cfg v"
  have "last (get_private_key_loc cfg u) = CHR ''m''"
    by (simp add: get_private_key_loc_def get_key_loc_def os_path_join_last)
  moreover have "last (get_public_key_loc cfg v) = CHR ''y''"
    by (simp add: get_public_key_loc_def get_key_loc_def os_path_join_last)
  ultimately show False using eq by simp
qed

lemma can_open_w_after_write:
  "write_file f p c = Inr f' \<Longrightarrow> can_open_w f' q = can_open_w f q"
  by (auto simp add: write_file_def can_open_w_def split: if_splits)

lemma write_file_error: "write_file f p c = Inl e \<Longrightarrow> e = IOError \<and> \<not> can_open_w f p"
  by (auto simp add: write_file_def split: if_splits)

lemma write_file_ok: "can_open_w f p \<Longrightarrow> write_file f p c = Inr (f\<lparr>files := (files f)(p \<mapsto> c)\<rparr>)"
  by (simp add: write_file_def)

lemma write_file_no: "\<not> can_open_w f p \<Longrightarrow> write_file f p c = Inl IOError"
  by (simp add: write_file_def)

lemma EllipticalKeysAuth_save_to_files_ok:
  assumes "can_open_w (fs w) p" and "can_open_w (fs w) q"
  shows "EllipticalKeysAuth_save_to_files self p q w =
           (Inr True, w\<lparr>fs := (fs w)\<lparr>files := (files (fs w))(p \<mapsto> private_key self,
                                                         q \<mapsto> public_key self)\<rparr>\<rparr>)"
  using assms
  by (simp add: EllipticalKeysAuth_save_to_files_def write_file_def can_open_w_def)

lemma EllipticalKeysAuth_save_to_files_locked:
  assumes "\<not> can_open_w (fs w) p"
  shows "EllipticalKeysAuth_save_to_files self p q w = (Inr False, w)"
  using assms by (simp add: EllipticalKeysAuth_save_to_files_def write_file_def)

lemma EllipticalKeysAuth_save_to_files_never_raises:
  "\<exists>b w'. EllipticalKeysAuth_save_to_files self p q w = (Inr b, w') \<and> draws w' = draws w"
  by (auto simp add: EllipticalKeysAuth_save_to_files_def write_file_def split: sum.split)

lemma EllipticalKeysAuth_set_and_save_fields:
  assumes "EllipticalKeysAuth_set_and_save L cfg self priv pub w = (r, self', w')"
  shows "private_key self' = priv \<and> public_key self' = pub \<and>
         key_id self' = EllipticalKeysAuth_cnt_key_id pub \<and> uuid self' = uuid self \<and>
         draws w' = draws w \<and>
         (case ECCx L None (Some priv) of Inl e \<Rightarrow> r = Inl e \<and> ecc self' = ecc self
          | Inr e \<Rightarrow> r = Inr () \<and> ecc self' = e)"
proof -
  let ?self1 = "self\<lparr>private_key := priv, public_key := pub,
                     key_id := EllipticalKeysAuth_cnt_key_id pub\<rparr>"
  obtain b w1 where
    s: "EllipticalKeysAuth_save_to_files ?self1 (get_private_key_loc cfg (uuid self))
          (get_public_key_loc cfg (uuid self)) w = (Inr b, w1)" "draws w1 = draws w"
    using EllipticalKeysAuth_save_to_files_never_raises by blast
  show ?thesis
    using assms s
    by (auto simp add: EllipticalKeysAuth_set_and_save_def Let_def split: sum.splits)
qed

lemma EllipticalKeysAuth_set_and_save_persists:
  assumes "EllipticalKeysAuth_set_and_save L cfg self priv pub w = (r, self', w')"
    and "can_open_w (fs w) (get_private_key_loc cfg (uuid self))"
    and "can_open_w (fs w) (get_public_key_loc cfg (uuid self))"
  shows "files (fs w') (get_private_key_loc cfg (uuid self)) = Some priv \<and>
         files (fs w') (get_public_key_loc cfg (uuid self)) = Some pub"
  using assms key_locs_distinct[of cfg "uuid self" "uuid self"]
  by (auto simp add: EllipticalKeysAuth_set_and_save_def EllipticalKeysAuth_save_to_files_ok
      Let_def split: sum.splits)

lemma EllipticalKeysAuth_set_and_save_locked:
  assumes "\<not> can_open_w (fs w) (get_private_key_loc cfg (uuid self))"
    and "EllipticalKeysAuth_set_and_save L cfg self priv pub w = (r, self', w')"
  shows "w' = w"
  using assms
  by (auto simp add: EllipticalKeysAuth_set_and_save_def EllipticalKeysAuth_save_to_files_locked
      Let_def split: sum.splits)

lemma EllipticalKeysAuth_generate_new_result:
  assumes "EllipticalKeysAuth_generate_new L H cfg self d w = Some (Inr (), self', w')"
  shows "\<exists>k h m. draws w \<le> k \<and> draws w' = Suc k \<and>
           private_key self' = mk_privkey L (random_str L k) \<and>
           privtopub L (private_key self') = Inr (public_key self') \<and>
           sha2 H (Str (EllipticalKeysAuth_cnt_key_id (public_key self'))) = Inr h \<and>
           count_min_hash d = Inr m \<and> rat_of_int h \<le> m \<and>
           key_id self' = EllipticalKeysAuth_cnt_key_id (public_key self') \<and>
           uuid self' = uuid self \<and>
           ECCx L None (Some (private_key self')) = Inr (ecc self') \<and>
           (can_open_w (fs w) (get_private_key_loc cfg (uuid self)) \<and>
            can_open_w (fs w) (get_public_key_loc cfg (uuid self)) \<longrightarrow>
            files (fs w') (get_private_key_loc cfg (uuid self)) = Some (private_key self') \<and>
            files (fs w') (get_public_key_loc cfg (uuid self)) = Some (public_key self'))"
proof -
  from assms obtain m priv pub n where
    m: "count_min_hash d = Inr m"
    and loop: "EllipticalKeysAuth_generate_new_loop L H m (draws w) =
             Some (Inr (priv, pub), n)"
    and sv: "EllipticalKeysAuth_set_and_save L cfg self priv pub (w\<lparr>draws := n\<rparr>) =
             (Inr (), self', w')"
    by (auto simp add: EllipticalKeysAuth_generate_new_def split: option.splits sum.splits)
  from EllipticalKeysAuth_generate_new_loop_accepts[OF loop] obtain k h where
    kh: "draws w \<le> k" "n = Suc k" "priv = mk_privkey L (random_str L k)"
        "privtopub L priv = Inr pub"
        "sha2 H (Str (EllipticalKeysAuth_cnt_key_id pub)) = Inr h"
        "rat_of_int h \<le> m"
    by blast
  from EllipticalKeysAuth_set_and_save_fields[OF sv] have
    f: "private_key self' = priv" "public_key self' = pub"
       "key_id self' = EllipticalKeysAuth_cnt_key_id pub" "uuid self' = uuid self"
       "draws w' = n" "ECCx L None (Some priv) = Inr (ecc self')"
    by (auto split: sum.splits)
  have p: "can_open_w (fs w) (get_private_key_loc cfg (uuid self)) \<and>
            can_open_w (fs w) (get_public_key_loc cfg (uuid self)) \<longrightarrow>
            files (fs w') (get_private_key_loc cfg (uuid self)) = Some priv \<and>
            files (fs w') (get_public_key_loc cfg (uuid self)) = Some pub"
    using EllipticalKeysAuth_set_and_save_persists[OF sv] by simp
  show ?thesis
    using kh f p m by (intro exI[of _ k] exI[of _ h] exI[of _ m]) simp
qed

text \<open>
  The elliptic backend does what C1 says: a pair that \<open>generate_new\<close> installs passed the
  threshold on the hash of its identifier, and its score, when the hash is not 0, is at least
  the target.
\<close>

lemma EllipticalKeysAuth_generate_new_accepts:
  assumes "EllipticalKeysAuth_generate_new L H cfg self d w = Some (Inr (), self', w')"
  shows "\<exists>h. sha2 H (Str (EllipticalKeysAuth_cnt_key_id (public_key self'))) = Inr h \<and>
             rat_of_int h \<le> 2 powi (256 - d) \<and>
             (0 < h \<longrightarrow>
              (\<exists>r. get_difficulty H self' (Some (key_id self')) = Some (Inr r) \<and> d \<le> r))"
proof -
  from EllipticalKeysAuth_generate_new_result[OF assms] obtain h m where
    h: "sha2 H (Str (EllipticalKeysAuth_cnt_key_id (public_key self'))) = Inr h"
       "count_min_hash d = Inr m" "rat_of_int h \<le> m"
       "key_id self' = EllipticalKeysAuth_cnt_key_id (public_key self')"
    by blast
  from sha2_Str_range[OF h(1)] have nonneg: "0 \<le> h" by simp
  have powi: "rat_of_int h \<le> 2 powi (256 - d)"
  proof (cases "h = 0")
    case True
    have "(0::rat) < 2 powi (256 - d)" by simp
    with True show ?thesis by simp
  next
    case False
    with nonneg have "1 \<le> h" by simp
    from accept_powi[OF h(2) this] h(3) show ?thesis by simp
  qed
  have "\<exists>r. get_difficulty H self' (Some (key_id self')) = Some (Inr r) \<and> d \<le> r" if "0 < h"
  proof -
    from get_difficulty_loop_threshold[OF h(1) that] obtain r where
      "get_difficulty_loop H (EllipticalKeysAuth_cnt_key_id (public_key self')) 0 = Some (Inr r)"
      "\<forall>d. rat_of_int h \<le> 2 powi (256 - d) \<longleftrightarrow> d \<le> r"
      by blast
    with powi h(4) show ?thesis by (simp add: get_difficulty_Some)
  qed
  with h(1) powi show ?thesis by blast
qed

subsection \<open>Runs on the sample instance\<close>

lemma encode_hex_samples:
  "encode_hex ''57.0'' = ''35372e30''"
  "encode_hex ''5158124448.0'' = ''353135383132343434382e30''"
  "encode_hex ''5.0'' = ''352e30''"
  by (simp_all add: encode_hex_def hexdigits_def)

lemma sample_loop:
  "EllipticalKeysAuth_generate_new_loop sample_ECC sample_sha256 16 0 =
     Some (Inr (''0.75'', ''57.0''), 2)"
  apply (subst EllipticalKeysAuth_generate_new_loop.simps)
  apply (simp add: sample_ECC_def sample_privtopub_def EllipticalKeysAuth_cnt_key_id_def
           encode_hex_samples sample_sha2)
  apply (subst EllipticalKeysAuth_generate_new_loop.simps)
  apply (simp add: sample_ECC_def sample_privtopub_def EllipticalKeysAuth_cnt_key_id_def
           encode_hex_samples sample_sha2)
  done

lemma sample_locs:
  "get_private_key_loc sample_cfg None = ''/keys/golem_private_key.pem''"
  "get_public_key_loc sample_cfg None = ''/keys/golem_public_key.pubkey''"
  "get_private_key_loc sample_cfg (Some ''None'') = ''/keys/golem_private_keyNone.pem''"
  "get_public_key_loc sample_cfg (Some ''None'') = ''/keys/golem_public_keyNone.pubkey''"
  by (simp_all add: get_private_key_loc_def get_public_key_loc_def get_key_loc_def
        os_path_join_def sample_cfg_def)

lemma sample_dirnames:
  "os_path_dirname ''/keys/golem_private_key.pem'' = ''/keys''"
  "os_path_dirname ''/keys/golem_public_key.pubkey'' = ''/keys''"
  "os_path_dirname ''/keys/golem_private_keyNone.pem'' = ''/keys''"
  "os_path_dirname ''/keys/golem_public_keyNone.pubkey'' = ''/keys''"
  by (simp_all add: os_path_dirname_def)

lemma locked_world_draws: "draws locked_world = 0"
  by (simp add: locked_world_def)

lemma sample_world_draws: "draws sample_world = 0"
  by (simp add: sample_world_def)


lemmas sample_defs = sample_world_def locked_world_def sample_fs_def sample_cfg_def
  sample_RSA_def sample_ECC_def sample_privtopub_def sample_EC_auth_def sample_RSA_auth_def

lemmas fs_defs = write_file_def read_file_def can_open_w_def os_path_isfile_def
  os_path_isdir_def os_makedirs_def sample_locs sample_dirnames str_of_uuid_def Let_def

lemma sample_RSA_init:
  "fst (RSAKeysAuth_init sample_RSA sample_cfg None sample_world) =
     Inr \<lparr>private_key = ''k'', public_key = ''pk'', key_id = ''pk'', uuid = None\<rparr>"
  by (simp add: RSAKeysAuth_init_def KeysAuth_init_def RSAKeysAuth_load_private_key_def
        RSAKeysAuth_load_public_key_def RSAKeysAuth_generate_keys_def RSAKeysAuth_cnt_key_id_def
        fs_defs sample_world_def sample_fs_def sample_RSA_def)

lemma sample_EC_init:
  "fst (EllipticalKeysAuth_init sample_ECC sample_cfg None sample_world) =
     Inr \<lparr>private_key = ''0.8444218515'', public_key = ''5158124448.0'',
          key_id = ''353135383132343434382e30'', uuid = None, ecc = ''5158124448.0''\<rparr>"
  by (simp add: EllipticalKeysAuth_init_def KeysAuth_init_def
        EllipticalKeysAuth_load_private_key_def EllipticalKeysAuth_load_public_key_def
        EllipticalKeysAuth_generate_keys_def EllipticalKeysAuth_cnt_key_id_def encode_hex_samples
        fs_defs sample_world_def sample_fs_def sample_ECC_def sample_privtopub_def)

lemma sample_RSA_load:
  "RSAKeysAuth_load_from_file sample_RSA sample_cfg sample_RSA_auth ''/tmp/rsa'' locked_world =
     (Inl IOError, \<lparr>private_key = ''kk'', public_key = ''pkk'', key_id = ''pkk'',
        uuid = None\<rparr>, locked_world)"
  by (simp add: RSAKeysAuth_load_from_file_def RSAKeysAuth_load_private_key_from_file_def
        RSAKeysAuth_set_and_save_def RSAKeysAuth_cnt_key_id_def
        fs_defs locked_world_def sample_fs_def sample_RSA_def sample_RSA_auth_def)

lemma sample_EC_load:
  "EllipticalKeysAuth_load_from_file sample_ECC sample_cfg sample_EC_auth ''/tmp/key''
     locked_world =
     (Inr True, \<lparr>private_key = ''0.5'', public_key = ''5.0'', key_id = ''352e30'',
        uuid = None, ecc = ''5.0''\<rparr>, locked_world)"
  by (simp add: EllipticalKeysAuth_load_from_file_def
        EllipticalKeysAuth_load_private_key_from_file_def
        EllipticalKeysAuth_set_and_save_def EllipticalKeysAuth_save_to_files_def
        EllipticalKeysAuth_cnt_key_id_def encode_hex_samples
        fs_defs locked_world_def sample_fs_def sample_ECC_def sample_privtopub_def
        sample_EC_auth_def)

section \<open>Signature verification\<close>

lemma hexval_z: "hexval CHR ''z'' = None"
  by (simp add: hexval_def)

lemma decode_hex_z: "decode_hex (CHR ''z'' # c # rest) = Inl TypeError"
  by (simp add: hexval_z)

lemma replicate_128: "replicate 128 c = c # c # replicate 126 c"
proof -
  have "(128::nat) = Suc (Suc 126)" by simp
  then show ?thesis by (simp only: replicate_Suc)
qed

text \<open>
  C3 fails. \<open>EllipticalKeysAuth.verify\<close> catches AssertionError only; a public key of 128
  characters that are not hexadecimal digits makes \<open>decode('hex')\<close> raise TypeError, which
  leaves \<open>verify\<close>, whatever the library does. \<open>RSAKeysAuth.verify\<close> has no handler at all.
\<close>

theorem EllipticalKeysAuth_verify_raises_TypeError:
  "EllipticalKeysAuth_verify L self sig data (Some (replicate 128 CHR ''z'')) = Inl TypeError"
proof -
  have "decode_hex (replicate 128 CHR ''z'') = Inl TypeError"
    by (simp only: replicate_128 decode_hex_z)
  then show ?thesis
    by (simp add: EllipticalKeysAuth_verify_def)
qed

lemma RSAKeysAuth_verify_propagates:
  "rsa_verify L pub data sig = Inl e \<Longrightarrow> RSAKeysAuth_verify L self sig data (Some pub) = Inl e"
  by (simp add: RSAKeysAuth_verify_def)

lemma EllipticalKeysAuth_verify_catches_AssertionError:
  "EllipticalKeysAuth_verify L self sig data pub_arg \<noteq> Inl AssertionError"
  by (auto simp add: EllipticalKeysAuth_verify_def Let_def split: sum.splits if_splits)

lemma EllipticalKeysAuth_verify_wrong_key_format:
  "length pub \<noteq> 128 \<Longrightarrow> ECCx L (Some pub) None = Inl AssertionError \<Longrightarrow>
   EllipticalKeysAuth_verify L self sig data (Some pub) = Inr False"
  by (simp add: EllipticalKeysAuth_verify_def)

section \<open>Importing a key file\<close>











section \<open>The identifier follows the public key\<close>

lemma KeysAuth_init_key_id:
  assumes "KeysAuth_init load_priv load_pub cnt u w = (Inr self, w')"
  shows "key_id self = cnt (public_key self) \<and> uuid self = u"
  using assms
  by (auto simp add: KeysAuth_init_def split: prod.splits sum.splits)

lemma RSAKeysAuth_set_and_save_fields:
  assumes "RSAKeysAuth_set_and_save L cfg self priv pub w = (r, self', w')"
  shows "private_key self' = priv \<and> public_key self' = pub \<and>
         key_id self' = RSAKeysAuth_cnt_key_id L pub \<and> uuid self' = uuid self"
  using assms
  by (auto simp add: RSAKeysAuth_set_and_save_def Let_def split: sum.splits)

lemma RSAKeysAuth_init_key_id:
  assumes "RSAKeysAuth_init L cfg u w = (Inr self, w')"
  shows "key_id self = RSAKeysAuth_cnt_key_id L (public_key self)"
  using assms KeysAuth_init_key_id unfolding RSAKeysAuth_init_def by blast

lemma EllipticalKeysAuth_init_key_id:
  assumes "EllipticalKeysAuth_init L cfg u w = (Inr self, w')"
  shows "key_id self = EllipticalKeysAuth_cnt_key_id (public_key self)"
proof (cases "KeysAuth_init (EllipticalKeysAuth_load_private_key L cfg)
             (EllipticalKeysAuth_load_public_key L cfg) EllipticalKeysAuth_cnt_key_id u w")
  case (Pair r w1)
  show ?thesis
  proof (cases r)
    case (Inl e)
    with Pair assms show ?thesis by (simp add: EllipticalKeysAuth_init_def)
  next
    case (Inr base)
    with Pair have k: "key_id base = EllipticalKeysAuth_cnt_key_id (public_key base)"
      using KeysAuth_init_key_id by blast
    from assms Pair Inr k show ?thesis
      by (auto simp add: EllipticalKeysAuth_init_def
          split: sum.splits if_splits prod.splits)
  qed
qed

lemma RSAKeysAuth_load_from_file_key_id:
  assumes "key_id self = RSAKeysAuth_cnt_key_id L (public_key self)"
    and "RSAKeysAuth_load_from_file L cfg self file_name w = (r, self', w')"
  shows "key_id self' = RSAKeysAuth_cnt_key_id L (public_key self')"
proof (cases "RSAKeysAuth_load_private_key_from_file L (fs w) file_name")
  case (Inl e)
  with assms show ?thesis by (simp add: RSAKeysAuth_load_from_file_def)
next
  case (Inr ko)
  show ?thesis
  proof (cases ko)
    case None
    with Inr assms show ?thesis by (simp add: RSAKeysAuth_load_from_file_def)
  next
    case (Some priv)
    show ?thesis
    proof (cases "publickey L priv")
      case (Inl e)
      with Inr Some assms show ?thesis by (simp add: RSAKeysAuth_load_from_file_def)
    next
      case pub: (Inr pub)
      obtain r1 s1 w1 where sv: "RSAKeysAuth_set_and_save L cfg self priv pub w = (r1, s1, w1)"
        by (cases "RSAKeysAuth_set_and_save L cfg self priv pub w") auto
      from RSAKeysAuth_set_and_save_fields[OF sv]
      have "key_id s1 = RSAKeysAuth_cnt_key_id L (public_key s1)" by simp
      moreover from assms(2) Inr Some pub sv have "self' = s1"
        by (auto simp add: RSAKeysAuth_load_from_file_def split: sum.splits)
      ultimately show ?thesis by simp
    qed
  qed
qed

lemma EllipticalKeysAuth_load_from_file_key_id:
  assumes "key_id self = EllipticalKeysAuth_cnt_key_id (public_key self)"
    and "EllipticalKeysAuth_load_from_file L cfg self file_name w = (r, self', w')"
  shows "key_id self' = EllipticalKeysAuth_cnt_key_id (public_key self')"
proof (cases "EllipticalKeysAuth_load_private_key_from_file (fs w) file_name")
  case (Inl e)
  with assms show ?thesis by (simp add: EllipticalKeysAuth_load_from_file_def)
next
  case (Inr ko)
  show ?thesis
  proof (cases ko)
    case None
    with Inr assms show ?thesis by (simp add: EllipticalKeysAuth_load_from_file_def)
  next
    case (Some priv)
    show ?thesis
    proof (cases "privtopub L priv")
      case (Inl e)
      with Inr Some assms show ?thesis by (simp add: EllipticalKeysAuth_load_from_file_def)
    next
      case pub: (Inr pub)
      obtain r1 s1 w1 where
        sv: "EllipticalKeysAuth_set_and_save L cfg self priv pub w = (r1, s1, w1)"
        by (cases "EllipticalKeysAuth_set_and_save L cfg self priv pub w") auto
      from EllipticalKeysAuth_set_and_save_fields[OF sv]
      have "key_id s1 = EllipticalKeysAuth_cnt_key_id (public_key s1)" by simp
      moreover from assms(2) Inr Some pub sv have "self' = s1"
        by (auto simp add: EllipticalKeysAuth_load_from_file_def split: sum.splits)
      ultimately show ?thesis by simp
    qed
  qed
qed

lemma RSAKeysAuth_generate_new_self:
  assumes "RSAKeysAuth_generate_new L H cfg self d w = Some (r, self', w')"
  shows "self' = self"
  using assms
  by (auto simp add: RSAKeysAuth_generate_new_def RSAKeysAuth_generate_new_loop_raises
      split: sum.splits)

lemma EllipticalKeysAuth_generate_new_key_id:
  assumes "key_id self = EllipticalKeysAuth_cnt_key_id (public_key self)"
    and "EllipticalKeysAuth_generate_new L H cfg self d w = Some (r, self', w')"
  shows "key_id self' = EllipticalKeysAuth_cnt_key_id (public_key self')"
proof (cases "count_min_hash d")
  case (Inl e)
  with assms show ?thesis by (simp add: EllipticalKeysAuth_generate_new_def)
next
  case m: (Inr m)
  show ?thesis
  proof (cases "EllipticalKeysAuth_generate_new_loop L H m (draws w)")
    case None
    with m assms(2) show ?thesis by (simp add: EllipticalKeysAuth_generate_new_def)
  next
    case (Some y)
    obtain res n where y: "y = (res, n)" by (cases y) auto
    show ?thesis
    proof (cases res)
      case (Inl e)
      with m Some y assms show ?thesis by (auto simp add: EllipticalKeysAuth_generate_new_def)
    next
      case (Inr pp)
      obtain priv pub where pp: "pp = (priv, pub)" by (cases pp) auto
      from assms(2) m Some y Inr pp have
        "EllipticalKeysAuth_set_and_save L cfg self priv pub (w\<lparr>draws := n\<rparr>) = (r, self', w')"
        by (simp add: EllipticalKeysAuth_generate_new_def)
      from EllipticalKeysAuth_set_and_save_fields[OF this] show ?thesis by simp
    qed
  qed
qed

lemma sample_generate_new:
  "EllipticalKeysAuth_generate_new sample_ECC sample_sha256 sample_cfg sample_EC_auth 252
     sample_world =
   Some (Inr (), \<lparr>private_key = ''0.75'', public_key = ''57.0'', key_id = ''35372e30'',
                  uuid = None, ecc = ''57.0''\<rparr>,
         \<lparr>fs = sample_fs\<lparr>files := (files sample_fs)
                  (''/keys/golem_private_key.pem'' \<mapsto> ''0.75'',
                   ''/keys/golem_public_key.pubkey'' \<mapsto> ''57.0'')\<rparr>, draws = 2\<rparr>)"
proof -
  have run: "EllipticalKeysAuth_generate_new sample_ECC sample_sha256 sample_cfg sample_EC_auth
               252 sample_world =
             Some (EllipticalKeysAuth_set_and_save sample_ECC sample_cfg sample_EC_auth
                     ''0.75'' ''57.0'' (sample_world\<lparr>draws := 2\<rparr>))"
    by (simp add: EllipticalKeysAuth_generate_new_def count_min_hash_samples sample_loop
          sample_world_draws)
  have save: "EllipticalKeysAuth_set_and_save sample_ECC sample_cfg sample_EC_auth
                ''0.75'' ''57.0'' (sample_world\<lparr>draws := 2\<rparr>) =
              (Inr (), \<lparr>private_key = ''0.75'', public_key = ''57.0'', key_id = ''35372e30'',
                  uuid = None, ecc = ''57.0''\<rparr>,
               \<lparr>fs = sample_fs\<lparr>files := (files sample_fs)
                  (''/keys/golem_private_key.pem'' \<mapsto> ''0.75'',
                   ''/keys/golem_public_key.pubkey'' \<mapsto> ''57.0'')\<rparr>, draws = 2\<rparr>)"
    by (simp add: sample_world_def
        EllipticalKeysAuth_set_and_save_def EllipticalKeysAuth_save_to_files_def
        sample_EC_auth_def fs_defs sample_fs_def
        sample_ECC_def sample_privtopub_def EllipticalKeysAuth_cnt_key_id_def encode_hex_samples)
  show ?thesis using run save by simp
qed

lemma sample_RSA_load_ok:
  "fst (RSAKeysAuth_load_from_file sample_RSA sample_cfg sample_RSA_auth ''/tmp/rsa''
          sample_world) = Inr True"
  "fst (snd (RSAKeysAuth_load_from_file sample_RSA sample_cfg sample_RSA_auth ''/tmp/rsa''
          sample_world)) =
     \<lparr>private_key = ''kk'', public_key = ''pkk'', key_id = ''pkk'', uuid = None\<rparr>"
  by (simp_all add: RSAKeysAuth_load_from_file_def RSAKeysAuth_load_private_key_from_file_def
        RSAKeysAuth_set_and_save_def RSAKeysAuth_cnt_key_id_def
        fs_defs sample_world_def sample_fs_def sample_RSA_def sample_RSA_auth_def)

lemma sample_RSA_set_and_save:
  "RSAKeysAuth_set_and_save sample_RSA sample_cfg sample_RSA_auth ''kk'' ''pkk'' locked_world =
     (Inl IOError,
      \<lparr>private_key = ''kk'', public_key = ''pkk'', key_id = ''pkk'', uuid = None\<rparr>,
      locked_world)"
  by (simp add: RSAKeysAuth_set_and_save_def RSAKeysAuth_cnt_key_id_def
        fs_defs locked_world_def sample_fs_def sample_RSA_def sample_RSA_auth_def)

lemma sample_EC_set_and_save:
  "EllipticalKeysAuth_set_and_save sample_ECC sample_cfg sample_EC_auth ''0.5'' ''5.0''
     locked_world =
     (Inr (), \<lparr>private_key = ''0.5'', public_key = ''5.0'', key_id = ''352e30'',
        uuid = None, ecc = ''5.0''\<rparr>, locked_world)"
  by (simp add: EllipticalKeysAuth_set_and_save_def EllipticalKeysAuth_save_to_files_def
        EllipticalKeysAuth_cnt_key_id_def encode_hex_samples
        fs_defs locked_world_def sample_fs_def sample_ECC_def sample_privtopub_def
        sample_EC_auth_def)

lemma sample_auth_key_ids:
  "key_id sample_RSA_auth = RSAKeysAuth_cnt_key_id sample_RSA (public_key sample_RSA_auth)"
  "key_id sample_EC_auth = EllipticalKeysAuth_cnt_key_id (public_key sample_EC_auth)"
  by (simp_all add: sample_RSA_auth_def sample_EC_auth_def RSAKeysAuth_cnt_key_id_def
        sample_RSA_def EllipticalKeysAuth_cnt_key_id_def encode_hex_def hexdigits_def)

lemma pair_of_fst: "fst x = a \<Longrightarrow> x = (a, snd x)"
  by (cases x) simp

lemma triple_of_parts: "fst x = a \<Longrightarrow> fst (snd x) = b \<Longrightarrow> x = (a, b, snd (snd x))"
  by (cases x) auto

text \<open>
  C9. In both backends the field \<open>key_id\<close> is \<open>cnt_key_id\<close> of the field \<open>public_key\<close>:
  in every authority that a constructor returns, in the authority that \<open>_set_and_save\<close>
  leaves (also when it ends in an exception, the fields being assigned first), and, when it
  held before the call, in the authority that \<open>load_from_file\<close> and \<open>generate_new\<close> leave,
  whatever their outcome.
\<close>

theorem key_id_follows_public_key:
  "(RSAKeysAuth_init L cfg u w = (Inr a, w') \<longrightarrow>
      key_id a = RSAKeysAuth_cnt_key_id L (public_key a)) \<and>
   (EllipticalKeysAuth_init LE cfg u w = (Inr b, w') \<longrightarrow>
      key_id b = EllipticalKeysAuth_cnt_key_id (public_key b)) \<and>
   (RSAKeysAuth_set_and_save L cfg a0 priv pub w = (r, a, w') \<longrightarrow>
      key_id a = RSAKeysAuth_cnt_key_id L (public_key a)) \<and>
   (EllipticalKeysAuth_set_and_save LE cfg b0 privE pubE w = (r, b, w') \<longrightarrow>
      key_id b = EllipticalKeysAuth_cnt_key_id (public_key b)) \<and>
   (key_id a0 = RSAKeysAuth_cnt_key_id L (public_key a0) \<and>
    RSAKeysAuth_load_from_file L cfg a0 file_name w = (rb, a, w') \<longrightarrow>
      key_id a = RSAKeysAuth_cnt_key_id L (public_key a)) \<and>
   (key_id b0 = EllipticalKeysAuth_cnt_key_id (public_key b0) \<and>
    EllipticalKeysAuth_load_from_file LE cfg b0 file_name w = (rb, b, w') \<longrightarrow>
      key_id b = EllipticalKeysAuth_cnt_key_id (public_key b)) \<and>
   (key_id a0 = RSAKeysAuth_cnt_key_id L (public_key a0) \<and>
    RSAKeysAuth_generate_new L sha256 cfg a0 d w = Some (r, a, w') \<longrightarrow>
      key_id a = RSAKeysAuth_cnt_key_id L (public_key a)) \<and>
   (key_id b0 = EllipticalKeysAuth_cnt_key_id (public_key b0) \<and>
    EllipticalKeysAuth_generate_new LE sha256 cfg b0 d w = Some (r, b, w') \<longrightarrow>
      key_id b = EllipticalKeysAuth_cnt_key_id (public_key b))"
proof (intro conjI impI)
  assume "RSAKeysAuth_init L cfg u w = (Inr a, w')"
  then show "key_id a = RSAKeysAuth_cnt_key_id L (public_key a)"
    by (rule RSAKeysAuth_init_key_id)
next
  assume "EllipticalKeysAuth_init LE cfg u w = (Inr b, w')"
  then show "key_id b = EllipticalKeysAuth_cnt_key_id (public_key b)"
    by (rule EllipticalKeysAuth_init_key_id)
next
  assume "RSAKeysAuth_set_and_save L cfg a0 priv pub w = (r, a, w')"
  from RSAKeysAuth_set_and_save_fields[OF this]
  show "key_id a = RSAKeysAuth_cnt_key_id L (public_key a)" by simp
next
  assume "EllipticalKeysAuth_set_and_save LE cfg b0 privE pubE w = (r, b, w')"
  from EllipticalKeysAuth_set_and_save_fields[OF this]
  show "key_id b = EllipticalKeysAuth_cnt_key_id (public_key b)" by simp
next
  assume "key_id a0 = RSAKeysAuth_cnt_key_id L (public_key a0) \<and>
    RSAKeysAuth_load_from_file L cfg a0 file_name w = (rb, a, w')"
  then show "key_id a = RSAKeysAuth_cnt_key_id L (public_key a)"
    using RSAKeysAuth_load_from_file_key_id[of a0 L cfg file_name w rb a w'] by simp
next
  assume "key_id b0 = EllipticalKeysAuth_cnt_key_id (public_key b0) \<and>
    EllipticalKeysAuth_load_from_file LE cfg b0 file_name w = (rb, b, w')"
  then show "key_id b = EllipticalKeysAuth_cnt_key_id (public_key b)"
    using EllipticalKeysAuth_load_from_file_key_id[of b0 LE cfg file_name w rb b w'] by simp
next
  assume "key_id a0 = RSAKeysAuth_cnt_key_id L (public_key a0) \<and>
    RSAKeysAuth_generate_new L sha256 cfg a0 d w = Some (r, a, w')"
  then show "key_id a = RSAKeysAuth_cnt_key_id L (public_key a)"
    using RSAKeysAuth_generate_new_self[of L sha256 cfg a0 d w r a w'] by simp
next
  assume "key_id b0 = EllipticalKeysAuth_cnt_key_id (public_key b0) \<and>
    EllipticalKeysAuth_generate_new LE sha256 cfg b0 d w = Some (r, b, w')"
  then show "key_id b = EllipticalKeysAuth_cnt_key_id (public_key b)"
    using EllipticalKeysAuth_generate_new_key_id[of b0 LE sha256 cfg d w r b w'] by simp
qed

theorem key_id_follows_public_key_witness:
  "(fst (RSAKeysAuth_init sample_RSA sample_cfg None sample_world) =
      Inr \<lparr>private_key = ''k'', public_key = ''pk'', key_id = ''pk'', uuid = None\<rparr> \<and>
    ''pk'' = RSAKeysAuth_cnt_key_id sample_RSA ''pk'') \<and>
   (fst (EllipticalKeysAuth_init sample_ECC sample_cfg None sample_world) =
      Inr \<lparr>private_key = ''0.8444218515'', public_key = ''5158124448.0'',
           key_id = ''353135383132343434382e30'', uuid = None, ecc = ''5158124448.0''\<rparr> \<and>
    ''353135383132343434382e30'' = EllipticalKeysAuth_cnt_key_id ''5158124448.0'') \<and>
   (RSAKeysAuth_set_and_save sample_RSA sample_cfg sample_RSA_auth ''kk'' ''pkk'' locked_world =
      (Inl IOError,
       \<lparr>private_key = ''kk'', public_key = ''pkk'', key_id = ''pkk'', uuid = None\<rparr>,
       locked_world) \<and>
    ''pkk'' = RSAKeysAuth_cnt_key_id sample_RSA ''pkk'') \<and>
   (EllipticalKeysAuth_set_and_save sample_ECC sample_cfg sample_EC_auth ''0.5'' ''5.0''
      locked_world =
      (Inr (), \<lparr>private_key = ''0.5'', public_key = ''5.0'', key_id = ''352e30'',
         uuid = None, ecc = ''5.0''\<rparr>, locked_world) \<and>
    ''352e30'' = EllipticalKeysAuth_cnt_key_id ''5.0'') \<and>
   (key_id sample_RSA_auth = RSAKeysAuth_cnt_key_id sample_RSA (public_key sample_RSA_auth) \<and>
    fst (RSAKeysAuth_load_from_file sample_RSA sample_cfg sample_RSA_auth ''/tmp/rsa''
           sample_world) = Inr True \<and>
    fst (snd (RSAKeysAuth_load_from_file sample_RSA sample_cfg sample_RSA_auth ''/tmp/rsa''
           sample_world)) =
      \<lparr>private_key = ''kk'', public_key = ''pkk'', key_id = ''pkk'', uuid = None\<rparr>) \<and>
   (key_id sample_EC_auth = EllipticalKeysAuth_cnt_key_id (public_key sample_EC_auth) \<and>
    EllipticalKeysAuth_load_from_file sample_ECC sample_cfg sample_EC_auth ''/tmp/key''
      locked_world =
      (Inr True, \<lparr>private_key = ''0.5'', public_key = ''5.0'', key_id = ''352e30'',
         uuid = None, ecc = ''5.0''\<rparr>, locked_world)) \<and>
   (RSAKeysAuth_generate_new sample_RSA sample_sha256 sample_cfg sample_RSA_auth 0
      sample_world = Some (Inl TypeError, sample_RSA_auth, sample_world\<lparr>draws := 1\<rparr>)) \<and>
   (EllipticalKeysAuth_generate_new sample_ECC sample_sha256 sample_cfg sample_EC_auth 252
      sample_world =
    Some (Inr (), \<lparr>private_key = ''0.75'', public_key = ''57.0'', key_id = ''35372e30'',
                   uuid = None, ecc = ''57.0''\<rparr>,
          \<lparr>fs = sample_fs\<lparr>files := (files sample_fs)
                   (''/keys/golem_private_key.pem'' \<mapsto> ''0.75'',
                    ''/keys/golem_public_key.pubkey'' \<mapsto> ''57.0'')\<rparr>, draws = 2\<rparr>) \<and>
    ''35372e30'' = EllipticalKeysAuth_cnt_key_id ''57.0'')"
proof -
  note T = key_id_follows_public_key
  have c1: "''pk'' = RSAKeysAuth_cnt_key_id sample_RSA ''pk''"
    using T[THEN conjunct1, THEN mp, OF pair_of_fst[OF sample_RSA_init]] by simp
  have c2: "''353135383132343434382e30'' = EllipticalKeysAuth_cnt_key_id ''5158124448.0''"
    using T[THEN conjunct2, THEN conjunct1, THEN mp, OF pair_of_fst[OF sample_EC_init]]
    by simp
  have c3: "''pkk'' = RSAKeysAuth_cnt_key_id sample_RSA ''pkk''"
    using T[THEN conjunct2, THEN conjunct2, THEN conjunct1, THEN mp, OF sample_RSA_set_and_save]
    by simp
  have c4: "''352e30'' = EllipticalKeysAuth_cnt_key_id ''5.0''"
    using T[THEN conjunct2, THEN conjunct2, THEN conjunct2, THEN conjunct1, THEN mp,
            OF sample_EC_set_and_save]
    by simp
  have c5: "''pkk'' = RSAKeysAuth_cnt_key_id sample_RSA ''pkk''"
    using T[THEN conjunct2, THEN conjunct2, THEN conjunct2, THEN conjunct2, THEN conjunct1,
            THEN mp, OF conjI, OF sample_auth_key_ids(1)
              triple_of_parts[OF sample_RSA_load_ok(1) sample_RSA_load_ok(2)]]
    by simp
  have c6: "''352e30'' = EllipticalKeysAuth_cnt_key_id ''5.0''"
    using T[THEN conjunct2, THEN conjunct2, THEN conjunct2, THEN conjunct2, THEN conjunct2,
            THEN conjunct1, THEN mp, OF conjI, OF sample_auth_key_ids(2) sample_EC_load]
    by simp
  have c7: "key_id sample_RSA_auth =
              RSAKeysAuth_cnt_key_id sample_RSA (public_key sample_RSA_auth)"
    using T[THEN conjunct2, THEN conjunct2, THEN conjunct2, THEN conjunct2, THEN conjunct2,
            THEN conjunct2, THEN conjunct1, THEN mp, OF conjI,
            OF sample_auth_key_ids(1) RSAKeysAuth_generate_new_sample]
    by simp
  have c8: "''35372e30'' = EllipticalKeysAuth_cnt_key_id ''57.0''"
    using T[THEN conjunct2, THEN conjunct2, THEN conjunct2, THEN conjunct2, THEN conjunct2,
            THEN conjunct2, THEN conjunct2, THEN mp, OF conjI,
            OF sample_auth_key_ids(2) sample_generate_new]
    by simp
  show ?thesis
    using c1 c2 c3 c4 c6 c8 sample_RSA_init sample_EC_init sample_RSA_set_and_save
      sample_EC_set_and_save sample_auth_key_ids sample_RSA_load_ok sample_EC_load
      RSAKeysAuth_generate_new_sample sample_generate_new
    by (intro conjI)
qed

section \<open>What \<open>generate_new\<close> leaves behind\<close>

text \<open>
  C4, as amended, for the elliptic backend. When \<open>generate_new\<close> returns, the authority
  holds a pair drawn during the call (the private key of some draw \<open>k\<close> not before the
  first of the call, and the public key that \<open>privtopub\<close> derives from it), its \<open>key_id\<close> is
  the identifier of the new public key and its uuid is unchanged; the two default files hold
  the pair provided both could be opened for writing.
\<close>

theorem EllipticalKeysAuth_generate_new_sets_and_saves:
  assumes "EllipticalKeysAuth_generate_new L sha256 cfg self difficulty w =
             Some (Inr (), self', w')"
  shows "(\<exists>k. draws w \<le> k \<and> draws w' = Suc k \<and>
              private_key self' = mk_privkey L (random_str L k)) \<and>
         privtopub L (private_key self') = Inr (public_key self') \<and>
         key_id self' = EllipticalKeysAuth_cnt_key_id (public_key self') \<and>
         uuid self' = uuid self \<and>
         (can_open_w (fs w) (get_private_key_loc cfg (uuid self)) \<and>
          can_open_w (fs w) (get_public_key_loc cfg (uuid self)) \<longrightarrow>
          files (fs w') (get_private_key_loc cfg (uuid self)) = Some (private_key self') \<and>
          files (fs w') (get_public_key_loc cfg (uuid self)) = Some (public_key self'))"
  using EllipticalKeysAuth_generate_new_result[OF assms] by blast

theorem EllipticalKeysAuth_generate_new_sets_and_saves_witness:
  "EllipticalKeysAuth_generate_new sample_ECC sample_sha256 sample_cfg sample_EC_auth 252
     sample_world =
   Some (Inr (), \<lparr>private_key = ''0.75'', public_key = ''57.0'', key_id = ''35372e30'',
                  uuid = None, ecc = ''57.0''\<rparr>,
         \<lparr>fs = sample_fs\<lparr>files := (files sample_fs)
                  (''/keys/golem_private_key.pem'' \<mapsto> ''0.75'',
                   ''/keys/golem_public_key.pubkey'' \<mapsto> ''57.0'')\<rparr>, draws = 2\<rparr>) \<and>
   can_open_w (fs sample_world) (get_private_key_loc sample_cfg (uuid sample_EC_auth)) \<and>
   can_open_w (fs sample_world) (get_public_key_loc sample_cfg (uuid sample_EC_auth)) \<and>
   privtopub sample_ECC ''0.75'' = Inr ''57.0'' \<and>
   ''35372e30'' = EllipticalKeysAuth_cnt_key_id ''57.0'' \<and>
   files (fs \<lparr>fs = sample_fs\<lparr>files := (files sample_fs)
                  (''/keys/golem_private_key.pem'' \<mapsto> ''0.75'',
                   ''/keys/golem_public_key.pubkey'' \<mapsto> ''57.0'')\<rparr>, draws = 2\<rparr>)
     (get_private_key_loc sample_cfg (uuid sample_EC_auth)) = Some ''0.75'' \<and>
   files (fs \<lparr>fs = sample_fs\<lparr>files := (files sample_fs)
                  (''/keys/golem_private_key.pem'' \<mapsto> ''0.75'',
                   ''/keys/golem_public_key.pubkey'' \<mapsto> ''57.0'')\<rparr>, draws = 2\<rparr>)
     (get_public_key_loc sample_cfg (uuid sample_EC_auth)) = Some ''57.0''"
proof -
  have c: "can_open_w (fs sample_world) (get_private_key_loc sample_cfg (uuid sample_EC_auth))"
    "can_open_w (fs sample_world) (get_public_key_loc sample_cfg (uuid sample_EC_auth))"
    by (simp_all add: fs_defs sample_world_def sample_fs_def sample_EC_auth_def)
  note t = EllipticalKeysAuth_generate_new_sets_and_saves[OF sample_generate_new]
  have p: "privtopub sample_ECC ''0.75'' = Inr ''57.0''"
    using t[THEN conjunct2, THEN conjunct1] by simp
  have k: "''35372e30'' = EllipticalKeysAuth_cnt_key_id ''57.0''"
    using t[THEN conjunct2, THEN conjunct2, THEN conjunct1] by simp
  from t[THEN conjunct2, THEN conjunct2, THEN conjunct2, THEN conjunct2] c have f:
    "files (fs \<lparr>fs = sample_fs\<lparr>files := (files sample_fs)
                  (''/keys/golem_private_key.pem'' \<mapsto> ''0.75'',
                   ''/keys/golem_public_key.pubkey'' \<mapsto> ''57.0'')\<rparr>, draws = 2\<rparr>)
       (get_private_key_loc sample_cfg (uuid sample_EC_auth)) = Some ''0.75''"
    "files (fs \<lparr>fs = sample_fs\<lparr>files := (files sample_fs)
                  (''/keys/golem_private_key.pem'' \<mapsto> ''0.75'',
                   ''/keys/golem_public_key.pubkey'' \<mapsto> ''57.0'')\<rparr>, draws = 2\<rparr>)
       (get_public_key_loc sample_cfg (uuid sample_EC_auth)) = Some ''57.0''"
    by (simp_all del: fun_upd_apply)
  from sample_generate_new c p k f show ?thesis by (intro conjI)
qed

text \<open>
  C4 as stated promises the files unconditionally. \<open>save_to_files\<close> swallows the IOError
  and \<open>_set_and_save\<close> drops its answer: with the two default files locked,
  \<open>generate_new\<close> returns normally with the new pair in memory and neither file written.
\<close>

theorem generate_new_locked_counterexample:
  "EllipticalKeysAuth_generate_new sample_ECC sample_sha256 sample_cfg sample_EC_auth 252
     locked_world =
   Some (Inr (), \<lparr>private_key = ''0.75'', public_key = ''57.0'', key_id = ''35372e30'',
                  uuid = None, ecc = ''57.0''\<rparr>, locked_world\<lparr>draws := 2\<rparr>) \<and>
   files (fs (locked_world\<lparr>draws := 2\<rparr>)) (get_private_key_loc sample_cfg None) = None \<and>
   files (fs (locked_world\<lparr>draws := 2\<rparr>)) (get_public_key_loc sample_cfg None) = None"
proof -
  have run: "EllipticalKeysAuth_generate_new sample_ECC sample_sha256 sample_cfg sample_EC_auth
               252 locked_world =
             Some (EllipticalKeysAuth_set_and_save sample_ECC sample_cfg sample_EC_auth
                     ''0.75'' ''57.0'' (locked_world\<lparr>draws := 2\<rparr>))"
    by (simp add: EllipticalKeysAuth_generate_new_def count_min_hash_samples sample_loop
          locked_world_draws)
  have save: "EllipticalKeysAuth_set_and_save sample_ECC sample_cfg sample_EC_auth
                ''0.75'' ''57.0'' (locked_world\<lparr>draws := 2\<rparr>) =
              (Inr (), \<lparr>private_key = ''0.75'', public_key = ''57.0'', key_id = ''35372e30'',
                  uuid = None, ecc = ''57.0''\<rparr>, locked_world\<lparr>draws := 2\<rparr>)"
    by (simp add: locked_world_def
        EllipticalKeysAuth_set_and_save_def EllipticalKeysAuth_save_to_files_def
        sample_EC_auth_def sample_locs write_file_def can_open_w_def sample_fs_def
        sample_ECC_def sample_privtopub_def EllipticalKeysAuth_cnt_key_id_def encode_hex_samples)
  have none: "files (fs (locked_world\<lparr>draws := 2\<rparr>)) (get_private_key_loc sample_cfg None) = None"
    "files (fs (locked_world\<lparr>draws := 2\<rparr>)) (get_public_key_loc sample_cfg None) = None"
    by (simp_all add: locked_world_def sample_fs_def sample_locs)
  show ?thesis using run save none by simp
qed

section \<open>Saving, then loading again\<close>

lemma EllipticalKeysAuth_save_to_files_True:
  assumes "EllipticalKeysAuth_save_to_files self p q w = (Inr True, w')"
  shows "w' = w\<lparr>fs := (fs w)\<lparr>files := (files (fs w))(p \<mapsto> private_key self,
                                                     q \<mapsto> public_key self)\<rparr>\<rparr>"
  using assms
  by (auto simp add: EllipticalKeysAuth_save_to_files_def write_file_def Let_def
      split: if_splits)

lemma EllipticalKeysAuth_save_then_load:
  assumes "EllipticalKeysAuth_save_to_files self (get_private_key_loc cfg u)
             (get_public_key_loc cfg u) w = (Inr True, w')"
  shows "EllipticalKeysAuth_load_private_key L cfg u w' = (Inr (private_key self), w') \<and>
         EllipticalKeysAuth_load_public_key L cfg u w' = (Inr (public_key self), w')"
proof -
  note w' = EllipticalKeysAuth_save_to_files_True[OF assms]
  have d: "get_private_key_loc cfg u \<noteq> get_public_key_loc cfg u"
    by (rule key_locs_distinct)
  show ?thesis
    using d
    by (simp add: w' EllipticalKeysAuth_load_private_key_def
          EllipticalKeysAuth_load_public_key_def os_path_isfile_def read_file_def)
qed

lemma EllipticalKeysAuth_reload_present_uuid:
  assumes "EllipticalKeysAuth_save_to_files self (get_private_key_loc cfg (Some s))
             (get_public_key_loc cfg (Some s)) w = (Inr True, w')"
    and "ECCx L None (Some (private_key self)) = Inr e"
  shows "EllipticalKeysAuth_init L cfg (Some s) w' =
           (Inr \<lparr>private_key = private_key self, public_key = public_key self,
                 key_id = EllipticalKeysAuth_cnt_key_id (public_key self),
                 uuid = Some s, ecc = e\<rparr>, w')"
  using EllipticalKeysAuth_save_then_load[OF assms(1), of L] assms(2)
  by (simp add: EllipticalKeysAuth_init_def KeysAuth_init_def str_of_uuid_def)

lemma imported_world_eq:
  "imported_world =
     \<lparr>fs = sample_fs\<lparr>files := (files sample_fs)
              (''/keys/golem_private_key.pem'' \<mapsto> ''0.5'',
               ''/keys/golem_public_key.pubkey'' \<mapsto> ''5.0'')\<rparr>, draws = 0\<rparr>"
  by (simp add: imported_world_def EllipticalKeysAuth_load_from_file_def
        EllipticalKeysAuth_load_private_key_from_file_def
        EllipticalKeysAuth_set_and_save_def EllipticalKeysAuth_save_to_files_def
        EllipticalKeysAuth_cnt_key_id_def encode_hex_samples
        fs_defs sample_world_def sample_fs_def sample_ECC_def sample_privtopub_def
        sample_EC_auth_def)

text \<open>
  C8 fails for the absent uuid, the default of the constructors. \<open>_set_and_save\<close> resolves
  the files of \<open>self.uuid\<close>, where \<open>None\<close> gives the empty string; \<open>KeysAuth.__init__\<close>
  resolves the files of \<open>str(uuid)\<close>, where \<open>None\<close> gives the four letters \<open>None\<close>. On the
  sample instance, an authority without uuid imports a key, which is saved in
  \<open>golem_private_key.pem\<close> and \<open>golem_public_key.pubkey\<close>; a second authority built without
  uuid looks for \<open>golem_private_keyNone.pem\<close>, finds nothing, draws a new key and ends with
  another \<open>key_id\<close>. For a present uuid the two resolutions agree
  (\<open>EllipticalKeysAuth_reload_present_uuid\<close>).
\<close>

theorem reload_absent_uuid_regenerates:
  "EllipticalKeysAuth_load_from_file sample_ECC sample_cfg sample_EC_auth ''/tmp/key''
     sample_world =
     (Inr True, \<lparr>private_key = ''0.5'', public_key = ''5.0'', key_id = ''352e30'',
        uuid = None, ecc = ''5.0''\<rparr>, imported_world) \<and>
   files (fs imported_world) (get_private_key_loc sample_cfg None) = Some ''0.5'' \<and>
   files (fs imported_world) (get_public_key_loc sample_cfg None) = Some ''5.0'' \<and>
   fst (EllipticalKeysAuth_init sample_ECC sample_cfg None imported_world) =
     Inr \<lparr>private_key = ''0.8444218515'', public_key = ''5158124448.0'',
          key_id = ''353135383132343434382e30'', uuid = None, ecc = ''5158124448.0''\<rparr> \<and>
   draws (snd (EllipticalKeysAuth_init sample_ECC sample_cfg None imported_world)) =
     Suc (draws imported_world)"
proof -
  have load: "EllipticalKeysAuth_load_from_file sample_ECC sample_cfg sample_EC_auth ''/tmp/key''
     sample_world =
     (Inr True, \<lparr>private_key = ''0.5'', public_key = ''5.0'', key_id = ''352e30'',
        uuid = None, ecc = ''5.0''\<rparr>, imported_world)"
    by (simp add: imported_world_eq EllipticalKeysAuth_load_from_file_def
        EllipticalKeysAuth_load_private_key_from_file_def
        EllipticalKeysAuth_set_and_save_def EllipticalKeysAuth_save_to_files_def
        EllipticalKeysAuth_cnt_key_id_def encode_hex_samples
        fs_defs sample_world_def sample_fs_def sample_ECC_def sample_privtopub_def
        sample_EC_auth_def)
  have saved: "files (fs imported_world) (get_private_key_loc sample_cfg None) = Some ''0.5''"
    "files (fs imported_world) (get_public_key_loc sample_cfg None) = Some ''5.0''"
    by (simp_all add: imported_world_eq sample_locs)
  have init: "fst (EllipticalKeysAuth_init sample_ECC sample_cfg None imported_world) =
     Inr \<lparr>private_key = ''0.8444218515'', public_key = ''5158124448.0'',
          key_id = ''353135383132343434382e30'', uuid = None, ecc = ''5158124448.0''\<rparr>"
    "draws (snd (EllipticalKeysAuth_init sample_ECC sample_cfg None imported_world)) =
     Suc (draws imported_world)"
    by (simp_all add: imported_world_eq EllipticalKeysAuth_init_def KeysAuth_init_def
        EllipticalKeysAuth_load_private_key_def EllipticalKeysAuth_load_public_key_def
        EllipticalKeysAuth_generate_keys_def EllipticalKeysAuth_cnt_key_id_def encode_hex_samples
        fs_defs sample_fs_def sample_ECC_def sample_privtopub_def)
  from load saved init show ?thesis by (intro conjI)
qed

end
